theory Spec2Isabelle
  imports Complex_Main "HOL-Library.Multiset" "HOL-Library.Word"
begin

section \<open>Queue insights service: data model\<close>

text \<open>
  Embedding of \<^verbatim>\<open>app/services/queue_insights.py\<close>. Python strings are \<open>string\<close>,
  Python integers are \<open>int\<close>. The means \<^verbatim>\<open>total / count\<close> are Python floats: a float
  is modelled by the rational number it denotes, and the division rounds the quotient to the
  nearest binary64 number, so that the comparisons of the source are comparisons of the
  rounded values.
\<close>

record datetime =
  dt_year :: nat
  dt_month :: nat
  dt_day :: nat
  dt_hour :: nat
  dt_minute :: nat

text \<open>
  The columns of \<^verbatim>\<open>QueueObservation\<close> that the service reads (\<^verbatim>\<open>notes\<close> is
  \<open>obs_notes\<close>). The two counts are \<^verbatim>\<open>Column(Integer)\<close>, a signed 32-bit integer of the
  database; the service reads them as Python integers, which is \<open>sint\<close> here.
\<close>

record observation =
  department :: string
  observed_at :: datetime
  number_of_patients :: "32 word"
  average_wait_minutes :: "32 word"
  obs_notes :: "string option"

text \<open>The exceptions the service can meet; all of them are subclasses of \<^verbatim>\<open>Exception\<close>.\<close>

datatype exn =
    ValueError
  | IndexError
  | ZeroDivisionError
  | OverflowError
  | AttributeError
  | Exception string

subsection \<open>Aggregation by department\<close>

text \<open>
  The values of \<^verbatim>\<open>dept_stats\<close>. The field \<^verbatim>\<open>count\<close> is \<open>stat_count\<close> and
  \<^verbatim>\<open>max_wait\<close> is \<open>stat_max_wait\<close> here, \<^verbatim>\<open>observations\<close> is \<open>stat_observations\<close>.
\<close>

record dept_stat =
  total_patients :: int
  total_wait :: int
  stat_count :: int
  stat_max_wait :: int
  stat_observations :: "observation list"

text \<open>The default factory of the \<^verbatim>\<open>defaultdict\<close>.\<close>

definition default_stat :: dept_stat where
  "default_stat = \<lparr>total_patients = 0, total_wait = 0, stat_count = 0, stat_max_wait = 0,
     stat_observations = []\<rparr>"

text \<open>
  A Python dict keeps its keys in insertion order, and the selections below iterate over it,
  so \<^verbatim>\<open>dept_stats\<close> is an association list: an update leaves a present key at its
  position, a new key is appended with the default value updated.
\<close>

fun dict_update :: "string \<Rightarrow> (dept_stat \<Rightarrow> dept_stat) \<Rightarrow> (string \<times> dept_stat) list
    \<Rightarrow> (string \<times> dept_stat) list" where
  "dict_update k f [] = [(k, f default_stat)]"
| "dict_update k f ((k', v) # kvs) =
     (if k = k' then (k', f v) # kvs else (k', v) # dict_update k f kvs)"

text \<open>The body of the loop \<^verbatim>\<open>for obs in observations\<close>, on the entry of the department.\<close>

definition add_observation :: "observation \<Rightarrow> dept_stat \<Rightarrow> dept_stat" where
  "add_observation obs s =
     \<lparr>total_patients = total_patients s + sint (number_of_patients obs),
      total_wait = total_wait s + sint (average_wait_minutes obs),
      stat_count = stat_count s + 1,
      stat_max_wait = max (stat_max_wait s) (sint (average_wait_minutes obs)),
      stat_observations = stat_observations s @ [obs]\<rparr>"

fun aggregate_loop :: "observation list \<Rightarrow> (string \<times> dept_stat) list \<Rightarrow> (string \<times> dept_stat) list" where
  "aggregate_loop [] d = d"
| "aggregate_loop (obs # rest) d =
     aggregate_loop rest (dict_update (department obs) (add_observation obs) d)"

definition dept_stats :: "observation list \<Rightarrow> (string \<times> dept_stat) list" where
  "dept_stats observations = aggregate_loop observations []"

text \<open>
  Python's \<^verbatim>\<open>a / b\<close> on two integers is the binary64 number nearest to the exact
  quotient, a tie going to the even significand. \<open>bit_length\<close> is \<^verbatim>\<open>int.bit_length\<close>,
  \<open>round_half_even n d\<close> is the integer nearest to \<open>n / d\<close>, \<open>floor_log2 n d\<close> is the
  exponent of the leading bit of \<open>n / d\<close>. A binary64 number has a significand of 53 bits
  and is a multiple of \<open>2 ^ e\<close> for the exponent \<open>e\<close> of its last bit, which is never
  below \<open>- 1074\<close>; \<open>double_of_ratio n d\<close> rounds \<open>n / d\<close> to a multiple of that
  \<open>2 ^ e\<close>.
\<close>

fun bit_length :: "nat \<Rightarrow> nat" where
  "bit_length n = (if n = 0 then 0 else Suc (bit_length (n div 2)))"

declare bit_length.simps [simp del]

definition round_half_even :: "nat \<Rightarrow> nat \<Rightarrow> nat" where
  "round_half_even n d =
     (let q = n div d; r = n mod d
      in if d < 2 * r \<or> (2 * r = d \<and> odd q) then q + 1 else q)"

definition floor_log2 :: "nat \<Rightarrow> nat \<Rightarrow> int" where
  "floor_log2 n d =
     (let k = int (bit_length n) - int (bit_length d)
      in if d * 2 ^ nat k \<le> n * 2 ^ nat (- k) then k else k - 1)"

definition double_of_ratio :: "nat \<Rightarrow> nat \<Rightarrow> rat" where
  "double_of_ratio n d =
     (if n = 0 then 0
      else (let e = max (- 1074) (floor_log2 n d - 52);
                m = round_half_even (n * 2 ^ nat (- e)) (d * 2 ^ nat e)
            in of_nat (m * 2 ^ nat e) / of_nat (2 ^ nat (- e))))"

definition nearest_double :: "int \<Rightarrow> int \<Rightarrow> rat" where
  "nearest_double a b =
     (let x = double_of_ratio (nat \<bar>a\<bar>) (nat \<bar>b\<bar>)
      in if (a < 0) \<noteq> (b < 0) then - x else x)"

text \<open>
  The division raises \<^verbatim>\<open>ZeroDivisionError\<close> on a zero divisor and
  \<^verbatim>\<open>OverflowError\<close> when the rounded quotient is beyond the greatest binary64 number,
  that is when it reaches \<open>2 ^ 1024\<close>.
\<close>

definition truediv :: "int \<Rightarrow> int \<Rightarrow> exn + rat" where
  "truediv a b =
     (if b = 0 then Inl ZeroDivisionError
      else if 2 ^ 1024 \<le> \<bar>nearest_double a b\<bar> then Inl OverflowError
      else Inr (nearest_double a b))"

text \<open>
  The values of \<^verbatim>\<open>dept_averages\<close>; \<^verbatim>\<open>count\<close> is \<open>obs_count\<close> here. The two means
  are floats, given by their values.
\<close>

record dept_average =
  avg_patients :: rat
  avg_wait :: rat
  max_wait :: int
  obs_count :: int

definition average_of :: "dept_stat \<Rightarrow> exn + dept_average" where
  "average_of stats =
     (case truediv (total_patients stats) (stat_count stats) of
        Inl e \<Rightarrow> Inl e
      | Inr ap \<Rightarrow>
          (case truediv (total_wait stats) (stat_count stats) of
             Inl e \<Rightarrow> Inl e
           | Inr aw \<Rightarrow>
               Inr \<lparr>avg_patients = ap, avg_wait = aw, max_wait = stat_max_wait stats,
                    obs_count = stat_count stats\<rparr>))"

fun averages_loop :: "(string \<times> dept_stat) list \<Rightarrow> exn + (string \<times> dept_average) list" where
  "averages_loop [] = Inr []"
| "averages_loop ((dept, stats) # rest) =
     (case average_of stats of
        Inl e \<Rightarrow> Inl e
      | Inr a \<Rightarrow>
          (case averages_loop rest of
             Inl e \<Rightarrow> Inl e
           | Inr as \<Rightarrow> Inr ((dept, a) # as)))"

definition dept_averages :: "observation list \<Rightarrow> exn + (string \<times> dept_average) list" where
  "dept_averages observations = averages_loop (dept_stats observations)"

text \<open>
  Python's \<^verbatim>\<open>max(items, key=...)\<close>: \<^verbatim>\<open>ValueError\<close> on an empty sequence, otherwise the
  first element whose key no later element exceeds (a later element replaces the current
  best only when its key is strictly greater).
\<close>

fun max_loop :: "('a \<Rightarrow> rat) \<Rightarrow> 'a \<Rightarrow> 'a list \<Rightarrow> 'a" where
  "max_loop key best [] = best"
| "max_loop key best (x # xs) = max_loop key (if key x > key best then x else best) xs"

fun py_max :: "('a \<Rightarrow> rat) \<Rightarrow> 'a list \<Rightarrow> exn + 'a" where
  "py_max key [] = Inl ValueError"
| "py_max key (x # xs) = Inr (max_loop key x xs)"


text \<open>Indexing \<^verbatim>\<open>xs[0]\<close> and \<^verbatim>\<open>xs[-1]\<close>: \<^verbatim>\<open>IndexError\<close> on the empty list.\<close>

definition py_first :: "'a list \<Rightarrow> exn + 'a" where
  "py_first xs = (case xs of [] \<Rightarrow> Inl IndexError | x # _ \<Rightarrow> Inr x)"

definition py_last :: "'a list \<Rightarrow> exn + 'a" where
  "py_last xs = (case xs of [] \<Rightarrow> Inl IndexError | _ # _ \<Rightarrow> Inr (last xs))"

subsection \<open>Rendering of values\<close>

definition digit_char :: "nat \<Rightarrow> char" where
  "digit_char d = ''0123456789'' ! d"

fun str_nat :: "nat \<Rightarrow> string" where
  "str_nat n = (if n < 10 then [digit_char n] else str_nat (n div 10) @ [digit_char (n mod 10)])"

declare str_nat.simps [simp del]

text \<open>\<^verbatim>\<open>str\<close> of a Python integer, as an f-string renders it.\<close>

definition str_int :: "int \<Rightarrow> string" where
  "str_int i = (if i < 0 then CHR ''-'' # str_nat (nat (- i)) else str_nat (nat i))"

definition zero_pad :: "nat \<Rightarrow> string \<Rightarrow> string" where
  "zero_pad w s = replicate (w - length s) (CHR ''0'') @ s"

text \<open>\<^verbatim>\<open>strftime('%Y-%m-%d')\<close> and \<^verbatim>\<open>strftime('%Y-%m-%d %H:%M')\<close>, fields zero-padded.\<close>

definition strftime_date :: "datetime \<Rightarrow> string" where
  "strftime_date t =
     zero_pad 4 (str_nat (dt_year t)) @ ''-'' @ zero_pad 2 (str_nat (dt_month t)) @ ''-'' @
     zero_pad 2 (str_nat (dt_day t))"

definition strftime_minute :: "datetime \<Rightarrow> string" where
  "strftime_minute t =
     strftime_date t @ '' '' @ zero_pad 2 (str_nat (dt_hour t)) @ '':'' @
     zero_pad 2 (str_nat (dt_minute t))"

text \<open>\<^verbatim>\<open>sep.join(parts)\<close>.\<close>

fun join :: "string \<Rightarrow> string list \<Rightarrow> string" where
  "join sep [] = []"
| "join sep [p] = p"
| "join sep (p # q # ps) = p @ sep @ join sep (q # ps)"

definition newline :: string where
  "newline = [CHR 0x0A]"

subsection \<open>The rule-based strategy\<close>

definition bottleneck_threshold :: int where
  "bottleneck_threshold = 60"

text \<open>The two selections \<^verbatim>\<open>max(dept_averages.items(), key=...)\<close>.\<close>

definition highest_wait_dept :: "(string \<times> dept_average) list \<Rightarrow> exn + (string \<times> dept_average)" where
  "highest_wait_dept avgs = py_max (\<lambda>x. avg_wait (snd x)) avgs"

definition highest_volume_dept :: "(string \<times> dept_average) list \<Rightarrow> exn + (string \<times> dept_average)" where
  "highest_volume_dept avgs = py_max (\<lambda>x. avg_patients (snd x)) avgs"

text \<open>The comprehension over \<^verbatim>\<open>dept_averages.items()\<close>.\<close>

definition bottleneck_depts :: "(string \<times> dept_average) list \<Rightarrow> string list" where
  "bottleneck_depts avgs =
     map fst (filter (\<lambda>x. avg_wait (snd x) > of_int bottleneck_threshold) avgs)"

text \<open>
  The fixed texts. The rendering \<^verbatim>\<open>{x:.1f}\<close> of a float is a parameter \<open>fmt\<close> of the
  model: it is a function from the value of the float to its text with one decimal place.
\<close>

definition header_part :: string where
  "header_part = ''**Queue Insights Analysis** (Rule-Based)''"

definition data_summary_part :: string where
  "data_summary_part = newline @ ''**Data Summary:**''"

definition analyzed_part :: "nat \<Rightarrow> nat \<Rightarrow> string" where
  "analyzed_part total_obs dept_count =
     ''- Analyzed '' @ str_nat total_obs @ '' observations across '' @ str_nat dept_count @
     '' department(s)''"

definition time_period_part :: "datetime \<Rightarrow> datetime \<Rightarrow> string" where
  "time_period_part oldest newest =
     ''- Time period: '' @ strftime_date oldest @ '' to '' @ strftime_date newest"

definition key_findings_part :: string where
  "key_findings_part = newline @ ''**Key Findings:**''"

definition finding1_part :: "(rat \<Rightarrow> string) \<Rightarrow> string \<Rightarrow> dept_average \<Rightarrow> string" where
  "finding1_part fmt hw_dept hw_stats =
     ''1. **Longest Wait Times:** '' @ hw_dept @ '' has an average wait time of '' @
     fmt (avg_wait hw_stats) @ '' minutes (max: '' @ str_int (max_wait hw_stats) @ '' minutes)''"

definition finding2_part :: "(rat \<Rightarrow> string) \<Rightarrow> string \<Rightarrow> dept_average \<Rightarrow> string" where
  "finding2_part fmt hv_dept hv_stats =
     ''2. **Highest Patient Volume:** '' @ hv_dept @ '' averages '' @
     fmt (avg_patients hv_stats) @ '' patients per observation''"

definition finding3_part :: "string list \<Rightarrow> string" where
  "finding3_part depts =
     ''3. **Potential Bottlenecks:** The following departments exceed '' @
     str_int bottleneck_threshold @ '' minutes average wait: '' @ join '', '' depts"

definition recommendation_part :: string where
  "recommendation_part = newline @ ''**Recommendation:**''"

definition staffing_message :: "string \<Rightarrow> string" where
  "staffing_message hw_dept =
     ''Consider increasing staffing or adjusting scheduling for '' @ hw_dept @
     '' to reduce wait times. Peak periods may benefit from additional resources.''"

definition monitoring_message :: "string \<Rightarrow> string" where
  "monitoring_message hw_dept =
     ''Monitor '' @ hw_dept @ '' closely as wait times are elevated. '' @
     ''Proactive scheduling adjustments may prevent future bottlenecks.''"

definition status_quo_message :: string where
  "status_quo_message =
     ''Current wait times are within acceptable ranges. '' @
     ''Continue monitoring for trends and consider preventive measures during peak hours.''"

definition note_part :: string where
  "note_part =
     newline @ ''*Note: This analysis uses rule-based heuristics. '' @
     ''For AI-powered insights, configure an OpenAI API key.*''"

text \<open>The chain \<^verbatim>\<open>if ... > bottleneck_threshold / elif ... > 30 / else\<close>.\<close>

definition recommendation :: "string \<Rightarrow> dept_average \<Rightarrow> string" where
  "recommendation hw_dept hw_stats =
     (if avg_wait hw_stats > of_int bottleneck_threshold then staffing_message hw_dept
      else if avg_wait hw_stats > 30 then monitoring_message hw_dept
      else status_quo_message)"

text \<open>
  The list \<^verbatim>\<open>insight_parts\<close> at the end of \<^verbatim>\<open>_generate_rule_based_insights\<close>, in the
  order the source evaluates: the aggregation, the means, the two selections, then the
  parts, where \<^verbatim>\<open>observations[-1]\<close> is read before \<^verbatim>\<open>observations[0]\<close>.
\<close>

definition insight_parts :: "(rat \<Rightarrow> string) \<Rightarrow> observation list \<Rightarrow> exn + string list" where
  "insight_parts fmt observations =
     (case dept_averages observations of
        Inl e \<Rightarrow> Inl e
      | Inr avgs \<Rightarrow>
     (case highest_wait_dept avgs of
        Inl e \<Rightarrow> Inl e
      | Inr (hw_dept, hw_stats) \<Rightarrow>
     (case highest_volume_dept avgs of
        Inl e \<Rightarrow> Inl e
      | Inr (hv_dept, hv_stats) \<Rightarrow>
     (case py_last observations of
        Inl e \<Rightarrow> Inl e
      | Inr oldest \<Rightarrow>
     (case py_first observations of
        Inl e \<Rightarrow> Inl e
      | Inr newest \<Rightarrow>
          Inr ([header_part,
                data_summary_part,
                analyzed_part (length observations) (length (dept_stats observations)),
                time_period_part (observed_at oldest) (observed_at newest),
                key_findings_part,
                finding1_part fmt hw_dept hw_stats]
               @ (if hv_dept \<noteq> hw_dept then [finding2_part fmt hv_dept hv_stats] else [])
               @ (if bottleneck_depts avgs \<noteq> [] then [finding3_part (bottleneck_depts avgs)]
                  else [])
               @ [recommendation_part,
                  recommendation hw_dept hw_stats,
                  note_part]))))))"

definition generate_rule_based_insights :: "(rat \<Rightarrow> string) \<Rightarrow> observation list \<Rightarrow> exn + string" where
  "generate_rule_based_insights fmt observations =
     (case insight_parts fmt observations of
        Inl e \<Rightarrow> Inl e
      | Inr parts \<Rightarrow> Inr (join newline parts))"


subsection \<open>The AI strategy\<close>

text \<open>
  The OpenAI client is outside the repository. Its behaviour is a parameter of the model:
  whether the package can be imported, and what constructing the client and calling
  \<^verbatim>\<open>client.chat.completions.create\<close> does on a request, either raising or returning the
  \<^verbatim>\<open>message.content\<close> of each choice (\<open>None\<close> for a missing content).
\<close>

record chat_request =
  req_api_key :: string
  req_model :: string
  req_messages :: "(string \<times> string) list"
  req_max_tokens :: int
  req_temperature :: rat

record openai_env =
  openai_installed :: bool
  chat_completions_create :: "chat_request \<Rightarrow> exn + string option list"

text \<open>The configuration the service copies in \<^verbatim>\<open>__init__\<close>.\<close>

record service =
  api_key :: "string option"
  model :: string
  max_tokens :: int

text \<open>\<^verbatim>\<open>str.strip()\<close>: whitespace removed at both ends.\<close>

definition is_space :: "char \<Rightarrow> bool" where
  "is_space c = (let n = (of_char c :: nat) in (9 \<le> n \<and> n \<le> 13) \<or> (28 \<le> n \<and> n \<le> 32) \<or> n = 133 \<or> n = 160)"

definition py_strip :: "string \<Rightarrow> string" where
  "py_strip s = rev (dropWhile is_space (rev (dropWhile is_space s)))"

text \<open>The lines of \<^verbatim>\<open>_prepare_observation_summary\<close>; \<^verbatim>\<open>enumerate\<close> counts from 1.\<close>

definition observation_line :: "nat \<Rightarrow> observation \<Rightarrow> string" where
  "observation_line i obs =
     str_nat i @ ''. Department: '' @ department obs @ '' | '' @
     ''Date: '' @ strftime_minute (observed_at obs) @ '' | '' @
     ''Patients: '' @ str_int (sint (number_of_patients obs)) @ '' | '' @
     ''Avg Wait: '' @ str_int (sint (average_wait_minutes obs)) @ '' min''"

fun summary_lines :: "nat \<Rightarrow> observation list \<Rightarrow> string list" where
  "summary_lines i [] = []"
| "summary_lines i (obs # rest) =
     observation_line i obs
     # (case obs_notes obs of
          None \<Rightarrow> []
        | Some n \<Rightarrow> (if n \<noteq> [] then [''   Notes: '' @ n] else []))
     @ summary_lines (Suc i) rest"

definition prepare_observation_summary :: "observation list \<Rightarrow> string" where
  "prepare_observation_summary observations =
     join newline
       ([''Queue Observations:'', replicate 80 (CHR ''-'')]
        @ summary_lines 1 observations
        @ [replicate 80 (CHR ''-''), ''Total observations: '' @ str_nat (length observations)])"

definition system_message :: string where
  "system_message =
     ''You are a helpful assistant that analyzes hospital queue data to provide operational insights.''"

definition prompt :: "string \<Rightarrow> string" where
  "prompt obs_summary =
     ''You are an AI assistant helping hospital administrators analyze queue data.'' @ newline @
     newline @
     ''Based on the following queue observations, provide a concise operational insight:'' @ newline @
     newline @
     obs_summary @ newline @
     newline @
     ''Your analysis should:'' @ newline @
     ''1. Identify the department(s) with the highest wait times or patient volumes'' @ newline @
     ''2. Highlight any concerning patterns or bottlenecks'' @ newline @
     ''3. Provide ONE actionable recommendation (e.g., staffing adjustment, scheduling change)'' @ newline @
     newline @
     ''Keep your response professional, clear, and under 300 words.'' @ newline @
     ''Focus on decision support, not prediction.'' @ newline"

text \<open>
  \<^verbatim>\<open>_generate_ai_insights\<close>: the failed import raises, the call may raise,
  \<^verbatim>\<open>choices[0]\<close> raises \<^verbatim>\<open>IndexError\<close> on no choice, \<^verbatim>\<open>.strip()\<close> on a content that is
  \<^verbatim>\<open>None\<close> raises \<^verbatim>\<open>AttributeError\<close>; otherwise the stripped content is returned.
\<close>

definition generate_ai_insights :: "openai_env \<Rightarrow> service \<Rightarrow> observation list \<Rightarrow> exn + string" where
  "generate_ai_insights env svc observations =
     (if \<not> openai_installed env then
        Inl (Exception ''OpenAI package not installed. Install with: pip install openai'')
      else
        (case chat_completions_create env
                \<lparr>req_api_key = (case api_key svc of None \<Rightarrow> [] | Some k \<Rightarrow> k),
                 req_model = model svc,
                 req_messages =
                   [(''system'', system_message),
                    (''user'', prompt (prepare_observation_summary observations))],
                 req_max_tokens = max_tokens svc,
                 req_temperature = 7 / 10\<rparr> of
           Inl e \<Rightarrow> Inl e
         | Inr choices \<Rightarrow>
             (case py_first choices of
                Inl e \<Rightarrow> Inl e
              | Inr content \<Rightarrow>
                  (case content of
                     None \<Rightarrow> Inl AttributeError
                   | Some c \<Rightarrow> Inr (py_strip c)))))"

subsection \<open>The entry point\<close>

definition no_observations_message :: string where
  "no_observations_message =
     ''No observations available for analysis. Please add queue observations first.''"

definition rule_based_marker :: string where
  "rule_based_marker = ''rule-based''"

text \<open>\<^verbatim>\<open>if self.api_key:\<close> is the truth value of an optional string.\<close>

definition api_key_configured :: "service \<Rightarrow> bool" where
  "api_key_configured svc = (case api_key svc of None \<Rightarrow> False | Some k \<Rightarrow> k \<noteq> [])"

text \<open>
  \<^verbatim>\<open>generate_insights\<close>: the empty list first; then the AI attempt when a key is
  configured, whose every \<^verbatim>\<open>Exception\<close> is caught; then the rule-based strategy, whose
  exception (if any) reaches the caller.
\<close>

definition rule_based_result :: "(rat \<Rightarrow> string) \<Rightarrow> observation list \<Rightarrow> exn + (string \<times> bool \<times> string)" where
  "rule_based_result fmt observations =
     (case generate_rule_based_insights fmt observations of
        Inl e \<Rightarrow> Inl e
      | Inr insight_text \<Rightarrow> Inr (insight_text, False, rule_based_marker))"

definition generate_insights ::
    "openai_env \<Rightarrow> (rat \<Rightarrow> string) \<Rightarrow> service \<Rightarrow> observation list \<Rightarrow> exn + (string \<times> bool \<times> string)" where
  "generate_insights env fmt svc observations =
     (if observations = [] then Inr (no_observations_message, False, rule_based_marker)
      else if api_key_configured svc then
        (case generate_ai_insights env svc observations of
           Inr insight_text \<Rightarrow> Inr (insight_text, True, model svc)
         | Inl e \<Rightarrow> rule_based_result fmt observations)
      else rule_based_result fmt observations)"

subsection \<open>Notions used to state the properties\<close>

text \<open>The distinct elements of a list, in the order of their first occurrence.\<close>

fun first_occurrences :: "'a list \<Rightarrow> 'a list" where
  "first_occurrences [] = []"
| "first_occurrences (k # ks) = k # filter (\<lambda>x. x \<noteq> k) (first_occurrences ks)"

text \<open>The position of the first occurrence of an element (the length, if there is none).\<close>

definition first_index :: "'a \<Rightarrow> 'a list \<Rightarrow> nat" where
  "first_index k ks = length (takeWhile (\<lambda>x. x \<noteq> k) ks)"

text \<open>The observations of one department, in input order.\<close>

definition dept_group :: "string \<Rightarrow> observation list \<Rightarrow> observation list" where
  "dept_group k xs = filter (\<lambda>obs. department obs = k) xs"

text \<open>
  The value of \<^verbatim>\<open>dept_averages\<close> for an entry of \<^verbatim>\<open>dept_stats\<close> on which neither
  division raises.
\<close>

definition mean_of :: "dept_stat \<Rightarrow> dept_average" where
  "mean_of s =
     \<lparr>avg_patients = nearest_double (total_patients s) (stat_count s),
      avg_wait = nearest_double (total_wait s) (stat_count s),
      max_wait = stat_max_wait s,
      obs_count = stat_count s\<rparr>"

text \<open>Sample data: an observation of a department on a fixed day, without notes.\<close>

definition sample_observation :: "string \<Rightarrow> nat \<Rightarrow> 32 word \<Rightarrow> 32 word \<Rightarrow> observation" where
  "sample_observation dept day patients wait =
     \<lparr>department = dept,
      observed_at = \<lparr>dt_year = 2025, dt_month = 12, dt_day = day, dt_hour = 14, dt_minute = 30\<rparr>,
      number_of_patients = patients,
      average_wait_minutes = wait,
      obs_notes = None\<rparr>"

text \<open>
  \<open>m\<close> is an entry of \<open>avgs\<close> with the greatest key, and among the entries with that key
  its department occurs first in \<open>ks\<close>.
\<close>

definition first_maximal ::
    "(dept_average \<Rightarrow> rat) \<Rightarrow> string list \<Rightarrow> (string \<times> dept_average) list
      \<Rightarrow> string \<times> dept_average \<Rightarrow> bool" where
  "first_maximal key ks avgs m =
     (m \<in> set avgs \<and>
      (\<forall>x\<in>set avgs. key (snd x) \<le> key (snd m) \<and>
         (key (snd x) = key (snd m) \<longrightarrow> first_index (fst m) ks \<le> first_index (fst x) ks)))"

text \<open>Sample lists: two departments tied on the mean wait; means at and above the threshold.\<close>

definition tied_observations :: "observation list" where
  "tied_observations =
     [sample_observation ''Cardiology'' 3 5 50, sample_observation ''Radiology'' 2 9 50,
      sample_observation ''Pharmacy'' 1 9 40]"

definition threshold_observations :: "observation list" where
  "threshold_observations =
     [sample_observation ''ER'' 5 5 30, sample_observation ''ICU'' 4 2 61,
      sample_observation ''ER'' 3 10 90, sample_observation ''Lab'' 2 4 20,
      sample_observation ''Surgery'' 1 3 100]"

text \<open>
  Sample list: 4097 observations of one department and then 4096 of another, whose exact
  mean waits differ and whose means as floats are equal.
\<close>

definition float_tie_observations :: "observation list" where
  "float_tie_observations =
     sample_observation ''Radiology'' 2 1 1500000001
       # replicate 4096 (sample_observation ''Radiology'' 2 1 1500000000)
     @ sample_observation ''Cardiology'' 1 1 1500000001
       # replicate 4095 (sample_observation ''Cardiology'' 1 1 1500000000)"

text \<open>\<^verbatim>\<open>s.startswith(p)\<close>, and the lines of a text (the text split at its line breaks).\<close>

fun starts_with :: "string \<Rightarrow> string \<Rightarrow> bool" where
  "starts_with [] s = True"
| "starts_with (c # cs) [] = False"
| "starts_with (c # cs) (d # ds) = (c = d \<and> starts_with cs ds)"

fun split_lines :: "string \<Rightarrow> string list" where
  "split_lines [] = [[]]"
| "split_lines (c # cs) =
     (if c = CHR 0x0A then [] # split_lines cs
      else (case split_lines cs of [] \<Rightarrow> [[c]] | l # ls \<Rightarrow> (c # l) # ls))"

text \<open>
  The two sections of the returned text, recognised by their fixed opening words: the text
  has the section when one of its lines starts with these words.
\<close>

definition has_bottleneck_section :: "string \<Rightarrow> bool" where
  "has_bottleneck_section text =
     list_ex (starts_with ''3. **Potential Bottlenecks:**'') (split_lines text)"

definition has_staffing_recommendation :: "string \<Rightarrow> bool" where
  "has_staffing_recommendation text =
     list_ex (starts_with ''Consider increasing staffing'') (split_lines text)"

text \<open>A string without a line break.\<close>

definition single_line :: "string \<Rightarrow> bool" where
  "single_line s = (CHR 0x0A \<notin> set s)"

text \<open>
  A rendering with one decimal place for the sample data: the exact mean rounded to the
  nearest tenth, ties to even.
\<close>

definition sample_fmt :: "rat \<Rightarrow> string" where
  "sample_fmt q =
     (let a = \<bar>q\<bar> * 10;
          f = \<lfloor>a\<rfloor>;
          r = a - of_int f;
          n = (if r > 1 / 2 \<or> (r = 1 / 2 \<and> odd f) then f + 1 else f)
      in (if q < 0 then ''-'' else []) @ str_int (n div 10) @ ''.'' @ str_int (n mod 10))"

text \<open>Sample lists: one observation with a wait of 30; three observations of one department.\<close>

definition boundary_observations :: "observation list" where
  "boundary_observations = [sample_observation ''ER'' 1 5 30]"

definition scenario_observations :: "observation list" where
  "scenario_observations =
     [sample_observation ''ER'' 3 5 30, sample_observation ''ER'' 2 10 90,
      sample_observation ''ER'' 1 8 60]"

text \<open>
  A department name with a line break inside, and the text returned for its observation;
  the text returned for \<open>threshold_observations\<close>. Both are given by their lines.
\<close>

definition forged_department :: string where
  "forged_department = ''Ward'' @ newline @ ''3. **Potential Bottlenecks:** none''"

definition forged_observations :: "observation list" where
  "forged_observations = [sample_observation forged_department 1 5 20]"

definition forged_text :: string where
  "forged_text = join newline
     [''**Queue Insights Analysis** (Rule-Based)'',
      '''',
      ''**Data Summary:**'',
      ''- Analyzed 1 observations across 1 department(s)'',
      ''- Time period: 2025-12-01 to 2025-12-01'',
      '''',
      ''**Key Findings:**'',
      ''1. **Longest Wait Times:** Ward'',
      ''3. **Potential Bottlenecks:** none has an average wait time of 20.0 minutes (max: 20 minutes)'',
      '''',
      ''**Recommendation:**'',
      ''Current wait times are within acceptable ranges. Continue monitoring for trends and consider preventive measures during peak hours.'',
      '''',
      ''*Note: This analysis uses rule-based heuristics. For AI-powered insights, configure an OpenAI API key.*'']"

definition threshold_text :: string where
  "threshold_text = join newline
     [''**Queue Insights Analysis** (Rule-Based)'',
      '''',
      ''**Data Summary:**'',
      ''- Analyzed 5 observations across 4 department(s)'',
      ''- Time period: 2025-12-01 to 2025-12-05'',
      '''',
      ''**Key Findings:**'',
      ''1. **Longest Wait Times:** Surgery has an average wait time of 100.0 minutes (max: 100 minutes)'',
      ''2. **Highest Patient Volume:** ER averages 7.5 patients per observation'',
      ''3. **Potential Bottlenecks:** The following departments exceed 60 minutes average wait: ICU, Surgery'',
      '''',
      ''**Recommendation:**'',
      ''Consider increasing staffing or adjusting scheduling for Surgery to reduce wait times. Peak periods may benefit from additional resources.'',
      '''',
      ''*Note: This analysis uses rule-based heuristics. For AI-powered insights, configure an OpenAI API key.*'']"

text \<open>
  Sample configuration with an API key, and sample behaviours of the client: a reply whose
  content is empty, a reply whose content is blank, and a call that raises.
\<close>

definition sample_service :: service where
  "sample_service = \<lparr>api_key = Some ''sk-test'', model = ''gpt-4o-mini'', max_tokens = 500\<rparr>"

definition empty_reply_env :: openai_env where
  "empty_reply_env =
     \<lparr>openai_installed = True, chat_completions_create = (\<lambda>request. Inr [Some '''']) \<rparr>"

definition blank_reply_env :: openai_env where
  "blank_reply_env =
     \<lparr>openai_installed = True, chat_completions_create = (\<lambda>request. Inr [Some ''   ''])\<rparr>"

definition timeout_env :: openai_env where
  "timeout_env =
     \<lparr>openai_installed = True,
      chat_completions_create = (\<lambda>request. Inl (Exception ''Request timed out.''))\<rparr>"

section \<open>Verification\<close>

subsection \<open>The empty input\<close>

text \<open>
  C3: on the empty observation list \<open>generate_insights\<close> returns the fixed no-data message
  with \<open>is_ai_generated = False\<close> and the marker \<open>rule-based\<close>, whatever the
  configuration and whatever the AI client would do: neither strategy is consulted.
\<close>

theorem generate_insights_empty:
  "generate_insights env fmt svc [] =
     Inr (''No observations available for analysis. Please add queue observations first.'',
          False, ''rule-based'')"
  by (simp add: generate_insights_def no_observations_message_def rule_based_marker_def)

subsection \<open>The shape of the aggregation\<close>

lemma map_fst_dict_update:
  "map fst (dict_update k f d) = (if k \<in> set (map fst d) then map fst d else map fst d @ [k])"
  by (induction d) force+

lemma map_of_dict_update:
  "map_of (dict_update k f d) =
     (map_of d)(k \<mapsto> f (case map_of d k of None \<Rightarrow> default_stat | Some v \<Rightarrow> v))"
  by (induction d) (auto simp: fun_eq_iff)

lemma distinct_dict_update:
  "distinct (map fst d) \<Longrightarrow> distinct (map fst (dict_update k f d))"
  by (simp add: map_fst_dict_update)

lemma filter_first_occurrences:
  "filter P (first_occurrences ks) = first_occurrences (filter P ks)"
proof (induction ks)
  case Nil
  then show ?case by simp
next
  case (Cons a ks)
  have "filter P (filter (\<lambda>x. x \<noteq> a) (first_occurrences ks))
      = filter (\<lambda>x. x \<noteq> a) (filter P (first_occurrences ks))"
    by (simp add: conj_commute)
  moreover have "\<not> P a \<Longrightarrow> filter (\<lambda>x. x \<noteq> a) (filter P (first_occurrences ks))
      = filter P (first_occurrences ks)"
    unfolding filter_filter by (rule filter_cong) auto
  ultimately show ?case using Cons.IH by auto
qed

lemma set_first_occurrences [simp]: "set (first_occurrences ks) = set ks"
  by (induction ks) auto

lemma distinct_first_occurrences [simp]: "distinct (first_occurrences ks)"
  by (induction ks) auto

lemma keys_aggregate_loop:
  "map fst (aggregate_loop xs d) =
     map fst d @ first_occurrences (filter (\<lambda>k. k \<notin> set (map fst d)) (map department xs))"
proof (induction xs arbitrary: d)
  case Nil
  then show ?case by simp
next
  case (Cons obs rest)
  show ?case
  proof (cases "department obs \<in> set (map fst d)")
    case True
    then show ?thesis by (simp add: Cons.IH map_fst_dict_update)
  next
    case False
    have "first_occurrences (filter (\<lambda>x. x \<noteq> department obs \<and> x \<notin> fst ` set d) (map department rest))
        = filter (\<lambda>k. k \<noteq> department obs) (first_occurrences (filter (\<lambda>k. k \<notin> fst ` set d) (map department rest)))"
      by (simp add: filter_first_occurrences conj_commute)
    then show ?thesis using False by (simp add: Cons.IH map_fst_dict_update)
  qed
qed

lemma keys_dept_stats: "map fst (dept_stats xs) = first_occurrences (map department xs)"
  by (simp add: dept_stats_def keys_aggregate_loop)

lemma map_of_aggregate_loop:
  "map_of (aggregate_loop xs d) k =
     (if k \<in> department ` set xs \<or> k \<in> fst ` set d
      then Some (fold add_observation (dept_group k xs)
                  (case map_of d k of None \<Rightarrow> default_stat | Some v \<Rightarrow> v))
      else None)"
proof (induction xs arbitrary: d)
  case Nil
  then show ?case by (auto simp: dept_group_def map_of_eq_None_iff split: option.splits)
next
  case (Cons obs rest)
  show ?case
  proof -
    have keys: "fst ` set (dict_update (department obs) f d) = insert (department obs) (fst ` set d)" for f
      using arg_cong[where f=set, OF map_fst_dict_update[of "department obs" f d]] by auto
    show ?thesis
      by (auto simp: Cons.IH map_of_dict_update dept_group_def keys split: option.splits)
  qed
qed

subsection \<open>Aggregated values\<close>

lemma add_observation_fields [simp]:
  "total_patients (add_observation obs s) = total_patients s + sint (number_of_patients obs)"
  "total_wait (add_observation obs s) = total_wait s + sint (average_wait_minutes obs)"
  "stat_count (add_observation obs s) = stat_count s + 1"
  "stat_max_wait (add_observation obs s) = max (stat_max_wait s) (sint (average_wait_minutes obs))"
  "stat_observations (add_observation obs s) = stat_observations s @ [obs]"
  by (simp_all add: add_observation_def)

lemma fold_add_total_patients:
  "total_patients (fold add_observation ys s) =
     total_patients s + sum_list (map (\<lambda>obs. sint (number_of_patients obs)) ys)"
  by (induction ys arbitrary: s) simp_all

lemma fold_add_total_wait:
  "total_wait (fold add_observation ys s) =
     total_wait s + sum_list (map (\<lambda>obs. sint (average_wait_minutes obs)) ys)"
  by (induction ys arbitrary: s) simp_all

lemma fold_add_stat_count:
  "stat_count (fold add_observation ys s) = stat_count s + int (length ys)"
  by (induction ys arbitrary: s) simp_all

lemma fold_add_stat_max_wait:
  "stat_max_wait (fold add_observation ys s) =
     Max (insert (stat_max_wait s) (set (map (\<lambda>obs. sint (average_wait_minutes obs)) ys)))"
proof (induction ys arbitrary: s)
  case Nil
  then show ?case by simp
next
  case (Cons y ys)
  let ?w = "\<lambda>obs. sint (average_wait_minutes obs)"
  have "Max (insert (max (stat_max_wait s) (?w y)) (?w ` set ys))
      = Max (insert (stat_max_wait s) (insert (?w y) (?w ` set ys)))"
    by (cases "set ys = {}") (simp_all add: max.assoc)
  then show ?case by (simp add: Cons.IH)
qed

lemma mean_of_fold_perm:
  assumes "mset xs = mset ys"
  shows "mean_of (fold add_observation xs s) = mean_of (fold add_observation ys s)"
proof -
  have "sum_list (map f xs) = sum_list (map f ys)" for f :: "observation \<Rightarrow> int"
    using assms by (metis mset_map sum_mset_sum_list)
  moreover have "length xs = length ys"
    using assms by (metis size_mset)
  moreover have "set xs = set ys"
    using assms by (metis set_mset_mset)
  ultimately show ?thesis
    by (simp add: mean_of_def fold_add_total_patients fold_add_total_wait fold_add_stat_count
        fold_add_stat_max_wait)
qed

subsection \<open>The division cannot overflow\<close>

lemma bit_length_0 [simp]: "bit_length 0 = 0"
  by (simp add: bit_length.simps)

lemma bit_length_pos: "n \<noteq> 0 \<Longrightarrow> bit_length n = Suc (bit_length (n div 2))"
  by (subst bit_length.simps) simp

lemmas double_eval = truediv_def nearest_double_def double_of_ratio_def floor_log2_def
  round_half_even_def bit_length_pos Let_def

lemma bit_length_upper: "n < 2 ^ bit_length n"
proof (induction n rule: bit_length.induct)
  case (1 n)
  show ?case
  proof (cases "n = 0")
    case True
    then show ?thesis by simp
  next
    case False
    have "n div 2 < 2 ^ bit_length (n div 2)" using 1 False by simp
    then have "n < 2 * 2 ^ bit_length (n div 2)" by linarith
    then show ?thesis using False by (simp add: bit_length_pos)
  qed
qed

lemma bit_length_lower: "n \<noteq> 0 \<Longrightarrow> 2 ^ (bit_length n - 1) \<le> n"
proof (induction n rule: bit_length.induct)
  case (1 n)
  show ?case
  proof (cases "n div 2 = 0")
    case True
    then show ?thesis using 1(2) by (simp add: bit_length_pos)
  next
    case False
    have "2 ^ (bit_length (n div 2) - 1) \<le> n div 2" using 1 False by simp
    moreover have "bit_length (n div 2) \<noteq> 0" using False by (simp add: bit_length_pos)
    ultimately have "2 ^ bit_length (n div 2) \<le> 2 * (n div 2)"
      by (cases "bit_length (n div 2)") simp_all
    then have "2 ^ bit_length (n div 2) \<le> n" by linarith
    then show ?thesis using 1(2) by (simp add: bit_length_pos)
  qed
qed

lemma bit_length_scaled:
  assumes "n \<noteq> 0" and "n \<le> 2 ^ j * d"
  shows "bit_length n \<le> bit_length d + j"
proof -
  have "2 ^ (bit_length n - 1) \<le> n" using assms(1) by (rule bit_length_lower)
  also have "n \<le> 2 ^ j * d" by (rule assms(2))
  also have "2 ^ j * d < 2 ^ j * 2 ^ bit_length d"
    using bit_length_upper[of d] by simp
  finally have "(2::nat) ^ (bit_length n - 1) < 2 ^ (j + bit_length d)"
    by (simp add: power_add)
  then have "bit_length n - 1 < j + bit_length d" by simp
  then show ?thesis by simp
qed

lemma floor_log2_le: "floor_log2 n d \<le> int (bit_length n) - int (bit_length d)"
  by (simp add: floor_log2_def Let_def)

lemma round_half_even_le: "round_half_even n d \<le> n div d + 1"
  by (simp add: round_half_even_def Let_def)

lemma double_of_ratio_nonneg: "0 \<le> double_of_ratio n d"
  by (simp add: double_of_ratio_def Let_def)

lemma double_of_ratio_bounded:
  assumes "d \<noteq> 0" and "n \<le> 2 ^ 31 * d"
  shows "double_of_ratio n d \<le> 2 ^ 31 + 1"
proof (cases "n = 0")
  case True
  then show ?thesis by (simp add: double_of_ratio_def)
next
  case False
  define e where "e = max (- 1074) (floor_log2 n d - 52)"
  define p where "p = nat (- e)"
  have "bit_length n \<le> bit_length d + 31" using False assms(2) by (rule bit_length_scaled)
  then have "floor_log2 n d \<le> 31" using floor_log2_le[of n d] by linarith
  then have e: "e < 0" by (simp add: e_def)
  then have ne: "nat e = 0" by simp
  have "n * 2 ^ p \<le> (2 ^ 31 * 2 ^ p) * d" using assms(2) by (simp add: mult.commute mult.left_commute)
  then have "(n * 2 ^ p) div d \<le> 2 ^ 31 * 2 ^ p"
    using assms(1) by (metis div_le_mono nonzero_mult_div_cancel_right)
  then have m: "round_half_even (n * 2 ^ p) d \<le> 2 ^ 31 * 2 ^ p + 1"
    using round_half_even_le[of "n * 2 ^ p" d] by linarith
  have val: "double_of_ratio n d = of_nat (round_half_even (n * 2 ^ p) d) / of_nat (2 ^ p)"
    using False ne by (simp add: double_of_ratio_def Let_def e_def[symmetric] p_def[symmetric])
  have "(of_nat (round_half_even (n * 2 ^ p) d) :: rat) \<le> of_nat (2 ^ 31 * 2 ^ p + 1)"
    using m by (rule of_nat_mono)
  also have "\<dots> \<le> (2 ^ 31 + 1) * of_nat (2 ^ p)"
    by (simp add: algebra_simps)
  finally show ?thesis
    unfolding val by (simp add: pos_divide_le_eq)
qed

lemma truediv_bounded:
  assumes "b \<noteq> 0" and "\<bar>a\<bar> \<le> 2 ^ 31 * \<bar>b\<bar>"
  shows "truediv a b = Inr (nearest_double a b)"
proof -
  have "nat \<bar>a\<bar> \<le> 2 ^ 31 * nat \<bar>b\<bar>"
    using assms(2) by (simp add: nat_le_iff nat_mult_distrib)
  moreover have "nat \<bar>b\<bar> \<noteq> 0" using assms(1) by simp
  ultimately have "double_of_ratio (nat \<bar>a\<bar>) (nat \<bar>b\<bar>) \<le> 2 ^ 31 + 1"
    by (intro double_of_ratio_bounded)
  moreover have "\<bar>nearest_double a b\<bar> = double_of_ratio (nat \<bar>a\<bar>) (nat \<bar>b\<bar>)"
    using double_of_ratio_nonneg[of "nat \<bar>a\<bar>" "nat \<bar>b\<bar>"] by (simp add: nearest_double_def Let_def)
  ultimately have "\<bar>nearest_double a b\<bar> < 2 ^ 1024" by simp
  then show ?thesis using assms(1) by (simp add: truediv_def)
qed

lemma sum_list_sint_bounded:
  fixes f :: "observation \<Rightarrow> 32 word"
  shows "\<bar>sum_list (map (\<lambda>obs. sint (f obs)) ys)\<bar> \<le> 2 ^ 31 * int (length ys)"
proof (induction ys)
  case Nil
  then show ?case by simp
next
  case (Cons y ys)
  have "- (2 ^ 31) \<le> sint (f y)" "sint (f y) < 2 ^ 31"
    using sint_ge[of "f y"] sint_lt[of "f y"] by simp_all
  then show ?case using Cons.IH by (simp add: algebra_simps)
qed

lemma fold_add_bounded:
  "\<bar>total_patients (fold add_observation ys default_stat)\<bar>
     \<le> 2 ^ 31 * \<bar>stat_count (fold add_observation ys default_stat)\<bar>"
  "\<bar>total_wait (fold add_observation ys default_stat)\<bar>
     \<le> 2 ^ 31 * \<bar>stat_count (fold add_observation ys default_stat)\<bar>"
  using sum_list_sint_bounded[of number_of_patients ys]
    sum_list_sint_bounded[of average_wait_minutes ys]
  by (simp_all add: fold_add_total_patients fold_add_total_wait fold_add_stat_count default_stat_def)

lemma map_of_dept_stats:
  "map_of (dept_stats xs) k =
     (if k \<in> department ` set xs then Some (fold add_observation (dept_group k xs) default_stat) else None)"
  by (simp add: dept_stats_def map_of_aggregate_loop)

lemma distinct_keys_dept_stats: "distinct (map fst (dept_stats xs))"
  by (simp add: keys_dept_stats)

lemma dept_stats_entry:
  assumes "(k, s) \<in> set (dept_stats xs)"
  shows "k \<in> department ` set xs" and "s = fold add_observation (dept_group k xs) default_stat"
proof -
  have "map_of (dept_stats xs) k = Some s"
    using assms distinct_keys_dept_stats by simp
  then show "k \<in> department ` set xs" and "s = fold add_observation (dept_group k xs) default_stat"
    by (auto simp: map_of_dept_stats split: if_splits)
qed

lemma dept_group_nonempty: "k \<in> department ` set xs \<Longrightarrow> dept_group k xs \<noteq> []"
  by (auto simp: dept_group_def filter_empty_conv)

lemma dept_stats_count_pos:
  assumes "(k, s) \<in> set (dept_stats xs)"
  shows "stat_count s > 0"
proof -
  have "dept_group k xs \<noteq> []" using dept_stats_entry(1)[OF assms] by (rule dept_group_nonempty)
  then show ?thesis
    by (simp add: dept_stats_entry(2)[OF assms] fold_add_stat_count default_stat_def)
qed

lemma average_of_mean:
  assumes "stat_count s \<noteq> 0"
    and "\<bar>total_patients s\<bar> \<le> 2 ^ 31 * \<bar>stat_count s\<bar>"
    and "\<bar>total_wait s\<bar> \<le> 2 ^ 31 * \<bar>stat_count s\<bar>"
  shows "average_of s = Inr (mean_of s)"
  by (simp add: average_of_def mean_of_def truediv_bounded[OF assms(1,2)]
      truediv_bounded[OF assms(1,3)])

lemma averages_loop_total:
  "(\<And>k s. (k, s) \<in> set d \<Longrightarrow> average_of s = Inr (mean_of s)) \<Longrightarrow>
     averages_loop d = Inr (map (\<lambda>(k, s). (k, mean_of s)) d)"
proof (induction d)
  case Nil
  then show ?case by simp
next
  case (Cons p d)
  obtain k s where p: "p = (k, s)" by (cases p)
  have "average_of s = Inr (mean_of s)" using Cons.prems[of k s] p by simp
  moreover have "averages_loop d = Inr (map (\<lambda>(k, s). (k, mean_of s)) d)"
    using Cons.prems by (intro Cons.IH) auto
  ultimately show ?case by (simp add: p)
qed

lemma dept_stats_average:
  assumes "(k, s) \<in> set (dept_stats xs)"
  shows "average_of s = Inr (mean_of s)"
proof -
  have "stat_count s \<noteq> 0" using dept_stats_count_pos[OF assms] by simp
  then show ?thesis
    unfolding dept_stats_entry(2)[OF assms]
    by (rule average_of_mean) (rule fold_add_bounded)+
qed

lemma dept_averages_eq:
  "dept_averages xs = Inr (map (\<lambda>(k, s). (k, mean_of s)) (dept_stats xs))"
  unfolding dept_averages_def
  by (rule averages_loop_total) (rule dept_stats_average)

lemma map_of_means:
  "map_of (map (\<lambda>(k, s). (k, mean_of s)) (dept_stats xs)) k =
     (if k \<in> department ` set xs
      then Some (mean_of (fold add_observation (dept_group k xs) default_stat)) else None)"
  by (simp add: map_of_map map_of_dept_stats)

lemma keys_means: "map fst (map (\<lambda>(k, s). (k, mean_of s)) d) = map fst d"
  by (induction d) auto

text \<open>
  C4: the aggregation is invariant under permutation of the input. For two lists with the
  same observations in any order, the computation of \<open>dept_averages\<close> succeeds on both, and
  the two results, as mappings from department to (\<open>avg_patients\<close>, \<open>avg_wait\<close>,
  \<open>max_wait\<close>, \<open>obs_count\<close>), are equal; the keys of each are distinct, so the
  association list is a mapping. Only the order of the keys can differ.
\<close>

theorem aggregation_order_invariant:
  assumes "mset xs = mset ys"
  shows "\<exists>a b. dept_averages xs = Inr a \<and> dept_averages ys = Inr b \<and>
           distinct (map fst a) \<and> distinct (map fst b) \<and> map_of a = map_of b"
proof -
  let ?a = "map (\<lambda>(k, s). (k, mean_of s)) (dept_stats xs)"
  let ?b = "map (\<lambda>(k, s). (k, mean_of s)) (dept_stats ys)"
  have set_eq: "set xs = set ys" using assms by (metis set_mset_mset)
  have grp: "mset (dept_group k xs) = mset (dept_group k ys)" for k
    using assms by (simp add: dept_group_def)
  have "map_of ?a k = map_of ?b k" for k
    using mean_of_fold_perm[OF grp[of k], of default_stat] set_eq by (simp add: map_of_means)
  then have "map_of ?a = map_of ?b" by (rule ext)
  moreover have "distinct (map fst ?a)" "distinct (map fst ?b)"
    by (simp_all only: keys_means distinct_keys_dept_stats)
  ultimately show ?thesis
    unfolding dept_averages_eq by blast
qed

theorem aggregation_order_invariant_witness:
  "mset [sample_observation ''ER'' 3 5 30, sample_observation ''Radiology'' 2 7 20,
         sample_observation ''ER'' 1 10 90]
   = mset [sample_observation ''ER'' 1 10 90, sample_observation ''ER'' 3 5 30,
           sample_observation ''Radiology'' 2 7 20]
   \<and> (\<exists>a b.
        dept_averages [sample_observation ''ER'' 3 5 30, sample_observation ''Radiology'' 2 7 20,
                       sample_observation ''ER'' 1 10 90] = Inr a \<and>
        dept_averages [sample_observation ''ER'' 1 10 90, sample_observation ''ER'' 3 5 30,
                       sample_observation ''Radiology'' 2 7 20] = Inr b \<and>
        distinct (map fst a) \<and> distinct (map fst b) \<and> map_of a = map_of b)"
proof -
  have perm: "mset [sample_observation ''ER'' 3 5 30, sample_observation ''Radiology'' 2 7 20,
         sample_observation ''ER'' 1 10 90]
   = mset [sample_observation ''ER'' 1 10 90, sample_observation ''ER'' 3 5 30,
           sample_observation ''Radiology'' 2 7 20]"
    by (simp add: add_mset_commute)
  show ?thesis using perm aggregation_order_invariant [OF perm] by blast
qed

subsection \<open>Selections and their order\<close>

lemma first_index_Cons:
  "first_index a (k # ks) = (if a = k then 0 else Suc (first_index a ks))"
  by (simp add: first_index_def)

lemma first_occurrences_sorted:
  "sorted_wrt (\<lambda>a b. first_index a ks < first_index b ks) (first_occurrences ks)"
proof (induction ks)
  case Nil
  then show ?case by simp
next
  case (Cons k ks)
  have "sorted_wrt (\<lambda>a b. first_index a ks < first_index b ks)
          (filter (\<lambda>x. x \<noteq> k) (first_occurrences ks))"
    using Cons.IH by (rule sorted_wrt_filter)
  then have "sorted_wrt (\<lambda>a b. first_index a (k # ks) < first_index b (k # ks))
          (filter (\<lambda>x. x \<noteq> k) (first_occurrences ks))"
    by (rule sorted_wrt_mono_rel[rotated]) (auto simp: first_index_Cons)
  then show ?case by (auto simp: first_index_Cons)
qed

lemma max_loop_split:
  "\<exists>pre post. best # xs = pre @ max_loop key best xs # post \<and>
     (\<forall>y\<in>set pre. key y < key (max_loop key best xs)) \<and>
     (\<forall>y\<in>set post. key y \<le> key (max_loop key best xs))"
proof (induction xs arbitrary: best)
  case Nil
  show ?case by (rule exI[of _ "[]"], rule exI[of _ "[]"]) simp
next
  case (Cons x xs)
  show ?case
  proof (cases "key x > key best")
    case True
    obtain pre post where s: "x # xs = pre @ max_loop key x xs # post"
      and lt: "\<forall>y\<in>set pre. key y < key (max_loop key x xs)"
      and le: "\<forall>y\<in>set post. key y \<le> key (max_loop key x xs)"
      using Cons.IH[of x] by blast
    have "x \<in> set (pre @ max_loop key x xs # post)" using s by (metis list.set_intros(1))
    then have "key x \<le> key (max_loop key x xs)" using lt le by auto
    then have "key best < key (max_loop key x xs)" using True by simp
    then have "best # x # xs = (best # pre) @ max_loop key x xs # post \<and>
        (\<forall>y\<in>set (best # pre). key y < key (max_loop key x xs)) \<and>
        (\<forall>y\<in>set post. key y \<le> key (max_loop key x xs))"
      using s lt le by simp
    then show ?thesis using True by (simp del: append_Cons set_simps) blast
  next
    case False
    obtain pre post where s: "best # xs = pre @ max_loop key best xs # post"
      and lt: "\<forall>y\<in>set pre. key y < key (max_loop key best xs)"
      and le: "\<forall>y\<in>set post. key y \<le> key (max_loop key best xs)"
      using Cons.IH[of best] by blast
    show ?thesis
    proof (cases pre)
      case Nil
      then have "best # x # xs = [] @ max_loop key best xs # (x # post) \<and>
        (\<forall>y\<in>set []. key y < key (max_loop key best xs)) \<and>
        (\<forall>y\<in>set (x # post). key y \<le> key (max_loop key best xs))"
        using s le False by auto
      then show ?thesis using False by (simp del: append_Cons append_Nil set_simps) blast
    next
      case (Cons p pre')
      then have "best # x # xs = (best # x # pre') @ max_loop key best xs # post \<and>
        (\<forall>y\<in>set (best # x # pre'). key y < key (max_loop key best xs)) \<and>
        (\<forall>y\<in>set post. key y \<le> key (max_loop key best xs))"
        using s lt le False by auto
      then show ?thesis using False by (simp del: append_Cons set_simps) blast
    qed
  qed
qed

lemma py_max_first:
  assumes "sorted_wrt R (map fst avgs)" and "avgs \<noteq> []"
  shows "\<exists>m. py_max key avgs = Inr m \<and> m \<in> set avgs \<and>
           (\<forall>x\<in>set avgs. key x \<le> key m \<and> (key x = key m \<longrightarrow> x = m \<or> R (fst m) (fst x)))"
proof -
  obtain a rest where avgs: "avgs = a # rest" using assms(2) by (cases avgs) auto
  let ?m = "max_loop key a rest"
  obtain pre post where s: "avgs = pre @ ?m # post"
    and lt: "\<forall>y\<in>set pre. key y < key ?m"
    and le: "\<forall>y\<in>set post. key y \<le> key ?m"
    using max_loop_split[of a rest key] avgs by blast
  have after: "\<forall>y\<in>set post. R (fst ?m) (fst y)"
    using assms(1) unfolding s by (auto simp: sorted_wrt_append)
  have "\<forall>x\<in>set avgs. key x \<le> key ?m \<and> (key x = key ?m \<longrightarrow> x = ?m \<or> R (fst ?m) (fst x))"
    unfolding s using lt le after by auto
  moreover have "?m \<in> set avgs" unfolding s by simp
  moreover have "py_max key avgs = Inr ?m" by (simp add: avgs)
  ultimately show ?thesis by blast
qed


lemma keys_dept_averages:
  "dept_averages xs = Inr avgs \<Longrightarrow> map fst avgs = first_occurrences (map department xs)"
proof -
  assume "dept_averages xs = Inr avgs"
  then have "avgs = map (\<lambda>(k, s). (k, mean_of s)) (dept_stats xs)"
    by (simp add: dept_averages_eq)
  then have "map fst avgs = map fst (dept_stats xs)"
    by (simp only: keys_means)
  then show ?thesis by (simp only: keys_dept_stats)
qed

lemma dept_averages_nonempty:
  "xs \<noteq> [] \<Longrightarrow> dept_averages xs = Inr avgs \<Longrightarrow> avgs \<noteq> []"
  using keys_dept_averages[of xs avgs] by (cases xs) auto

text \<open>
  C5: on a non-empty list the computation of the means succeeds, the keys of the result are
  the departments in the order of their first occurrence in the input, and each of the two
  selections returns an entry of greatest key (\<open>avg_wait\<close>, respectively \<open>avg_patients\<close>)
  whose department, among the entries tied on that key, occurs first in the input. The two
  selections are made independently. The keys are the floats that the source compares, so
  the departments tied are those whose rounded means are equal, whether or not their exact
  means are; \<open>float_tie_keeps_first\<close> below evaluates a list with such a tie.
\<close>

theorem tie_break_first_encountered:
  assumes "observations \<noteq> []"
  shows "\<exists>avgs hw hv.
     dept_averages observations = Inr avgs \<and>
     map fst avgs = first_occurrences (map department observations) \<and>
     highest_wait_dept avgs = Inr hw \<and>
     first_maximal avg_wait (map department observations) avgs hw \<and>
     highest_volume_dept avgs = Inr hv \<and>
     first_maximal avg_patients (map department observations) avgs hv"
proof -
  let ?ks = "map department observations"
  let ?R = "\<lambda>a b. first_index a ?ks < first_index b ?ks"
  obtain avgs where avgs: "dept_averages observations = Inr avgs"
    by (simp add: dept_averages_eq)
  have keys: "map fst avgs = first_occurrences ?ks" using avgs by (rule keys_dept_averages)
  have sorted: "sorted_wrt ?R (map fst avgs)" unfolding keys by (rule first_occurrences_sorted)
  have ne: "avgs \<noteq> []" using assms avgs by (rule dept_averages_nonempty)
  have sel: "\<exists>m. py_max (\<lambda>x. key (snd x)) avgs = Inr m \<and> first_maximal key ?ks avgs m" for key
  proof -
    obtain m where m: "py_max (\<lambda>x. key (snd x)) avgs = Inr m" "m \<in> set avgs"
      and mx: "\<forall>x\<in>set avgs. key (snd x) \<le> key (snd m) \<and>
          (key (snd x) = key (snd m) \<longrightarrow> x = m \<or> ?R (fst m) (fst x))"
      using py_max_first[OF sorted ne, of "\<lambda>x. key (snd x)"] by blast
    have "\<forall>x\<in>set avgs. key (snd x) \<le> key (snd m) \<and>
          (key (snd x) = key (snd m) \<longrightarrow> first_index (fst m) ?ks \<le> first_index (fst x) ?ks)"
      using mx by (metis le_refl less_imp_le)
    then show ?thesis using m unfolding first_maximal_def by blast
  qed
  obtain hw where hw: "highest_wait_dept avgs = Inr hw" "first_maximal avg_wait ?ks avgs hw"
    using sel[of avg_wait] unfolding highest_wait_dept_def by blast
  obtain hv where hv: "highest_volume_dept avgs = Inr hv" "first_maximal avg_patients ?ks avgs hv"
    using sel[of avg_patients] unfolding highest_volume_dept_def by blast
  show ?thesis using avgs keys hw hv by blast
qed

theorem tie_break_first_encountered_witness:
  "tied_observations \<noteq> [] \<and>
   (\<exists>avgs hw hv.
     dept_averages tied_observations = Inr avgs \<and>
     map fst avgs = first_occurrences (map department tied_observations) \<and>
     highest_wait_dept avgs = Inr hw \<and>
     first_maximal avg_wait (map department tied_observations) avgs hw \<and>
     highest_volume_dept avgs = Inr hv \<and>
     first_maximal avg_patients (map department tied_observations) avgs hv) \<and>
   dept_averages tied_observations =
     Inr [(''Cardiology'', \<lparr>avg_patients = 5, avg_wait = 50, max_wait = 50, obs_count = 1\<rparr>),
          (''Radiology'', \<lparr>avg_patients = 9, avg_wait = 50, max_wait = 50, obs_count = 1\<rparr>),
          (''Pharmacy'', \<lparr>avg_patients = 9, avg_wait = 40, max_wait = 40, obs_count = 1\<rparr>)] \<and>
   highest_wait_dept
         [(''Cardiology'', \<lparr>avg_patients = 5, avg_wait = 50, max_wait = 50, obs_count = 1\<rparr>),
          (''Radiology'', \<lparr>avg_patients = 9, avg_wait = 50, max_wait = 50, obs_count = 1\<rparr>),
          (''Pharmacy'', \<lparr>avg_patients = 9, avg_wait = 40, max_wait = 40, obs_count = 1\<rparr>)]
     = Inr (''Cardiology'', \<lparr>avg_patients = 5, avg_wait = 50, max_wait = 50, obs_count = 1\<rparr>) \<and>
   highest_volume_dept
         [(''Cardiology'', \<lparr>avg_patients = 5, avg_wait = 50, max_wait = 50, obs_count = 1\<rparr>),
          (''Radiology'', \<lparr>avg_patients = 9, avg_wait = 50, max_wait = 50, obs_count = 1\<rparr>),
          (''Pharmacy'', \<lparr>avg_patients = 9, avg_wait = 40, max_wait = 40, obs_count = 1\<rparr>)]
     = Inr (''Radiology'', \<lparr>avg_patients = 9, avg_wait = 50, max_wait = 50, obs_count = 1\<rparr>)"
proof -
  have ne: "tied_observations \<noteq> []" by (simp add: tied_observations_def)
  have ev: "dept_averages tied_observations =
     Inr [(''Cardiology'', \<lparr>avg_patients = 5, avg_wait = 50, max_wait = 50, obs_count = 1\<rparr>),
          (''Radiology'', \<lparr>avg_patients = 9, avg_wait = 50, max_wait = 50, obs_count = 1\<rparr>),
          (''Pharmacy'', \<lparr>avg_patients = 9, avg_wait = 40, max_wait = 40, obs_count = 1\<rparr>)]"
    by (simp add: tied_observations_def dept_averages_def dept_stats_def sample_observation_def
          add_observation_def default_stat_def average_of_def double_eval)
  have hw: "highest_wait_dept
         [(''Cardiology'', \<lparr>avg_patients = 5, avg_wait = 50, max_wait = 50, obs_count = 1\<rparr>),
          (''Radiology'', \<lparr>avg_patients = 9, avg_wait = 50, max_wait = 50, obs_count = 1\<rparr>),
          (''Pharmacy'', \<lparr>avg_patients = 9, avg_wait = 40, max_wait = 40, obs_count = 1\<rparr>)]
     = Inr (''Cardiology'', \<lparr>avg_patients = 5, avg_wait = 50, max_wait = 50, obs_count = 1\<rparr>)"
    by (simp add: highest_wait_dept_def)
  have hv: "highest_volume_dept
         [(''Cardiology'', \<lparr>avg_patients = 5, avg_wait = 50, max_wait = 50, obs_count = 1\<rparr>),
          (''Radiology'', \<lparr>avg_patients = 9, avg_wait = 50, max_wait = 50, obs_count = 1\<rparr>),
          (''Pharmacy'', \<lparr>avg_patients = 9, avg_wait = 40, max_wait = 40, obs_count = 1\<rparr>)]
     = Inr (''Radiology'', \<lparr>avg_patients = 9, avg_wait = 50, max_wait = 50, obs_count = 1\<rparr>)"
    by (simp add: highest_volume_dept_def)
  show ?thesis
    using ne tie_break_first_encountered [OF ne] ev hw hv by (intro conjI) assumption+
qed

lemma dept_stats_two_groups:
  assumes "department x = b" "department x' = b" "department y = a" "department y' = a"
    and "a \<noteq> b"
  shows "dept_stats (x # replicate n x' @ y # replicate m y') =
     [(b, fold add_observation (x # replicate n x') default_stat),
      (a, fold add_observation (y # replicate m y') default_stat)]"
proof -
  let ?xs = "x # replicate n x' @ y # replicate m y'"
  have "map fst (dept_stats ?xs) = [b, a]"
    using assms by (simp add: keys_dept_stats filter_first_occurrences)
  then obtain s1 s2 where eq: "dept_stats ?xs = [(b, s1), (a, s2)]"
    by (auto simp: map_eq_Cons_conv)
  have "dept_group b ?xs = x # replicate n x'" "dept_group a ?xs = y # replicate m y'"
    using assms by (auto simp: dept_group_def)
  moreover have "s1 = fold add_observation (dept_group b ?xs) default_stat"
    by (rule dept_stats_entry(2)) (simp add: eq)
  moreover have "s2 = fold add_observation (dept_group a ?xs) default_stat"
    by (rule dept_stats_entry(2)) (simp add: eq)
  ultimately show ?thesis using eq by simp
qed

lemma float_tie_means:
  "nearest_double 6145500000001 4097 = 6144000000001 / 4096"
  "nearest_double 6144000000001 4096 = 6144000000001 / 4096"
  "nearest_double 4097 4097 = 1"
  "nearest_double 4096 4096 = 1"
  "(6145500000001 :: rat) / 4097 < 6144000000001 / 4096"
  by (simp_all add: double_eval)

lemma float_tie_keeps_first:
  "dept_averages float_tie_observations =
     Inr [(''Radiology'', \<lparr>avg_patients = 1, avg_wait = 6144000000001 / 4096,
             max_wait = 1500000001, obs_count = 4097\<rparr>),
          (''Cardiology'', \<lparr>avg_patients = 1, avg_wait = 6144000000001 / 4096,
             max_wait = 1500000001, obs_count = 4096\<rparr>)]"
  "highest_wait_dept
         [(''Radiology'', \<lparr>avg_patients = 1, avg_wait = 6144000000001 / 4096,
             max_wait = 1500000001, obs_count = 4097\<rparr>),
          (''Cardiology'', \<lparr>avg_patients = 1, avg_wait = 6144000000001 / 4096,
             max_wait = 1500000001, obs_count = 4096\<rparr>)]
     = Inr (''Radiology'', \<lparr>avg_patients = 1, avg_wait = 6144000000001 / 4096,
             max_wait = 1500000001, obs_count = 4097\<rparr>)"
proof -
  have stats: "dept_stats float_tie_observations =
     [(''Radiology'', fold add_observation
         (sample_observation ''Radiology'' 2 1 1500000001
            # replicate 4096 (sample_observation ''Radiology'' 2 1 1500000000)) default_stat),
      (''Cardiology'', fold add_observation
         (sample_observation ''Cardiology'' 1 1 1500000001
            # replicate 4095 (sample_observation ''Cardiology'' 1 1 1500000000)) default_stat)]"
    unfolding float_tie_observations_def
    by (rule dept_stats_two_groups) (simp_all add: sample_observation_def)
  have fields: "sint (number_of_patients (sample_observation d k p w)) = sint p"
      "sint (average_wait_minutes (sample_observation d k p w)) = sint w" for d k p w
    by (simp_all add: sample_observation_def)
  have m1: "mean_of (fold add_observation
         (sample_observation ''Radiology'' 2 1 1500000001
            # replicate 4096 (sample_observation ''Radiology'' 2 1 1500000000)) default_stat)
      = \<lparr>avg_patients = 1, avg_wait = 6144000000001 / 4096,
             max_wait = 1500000001, obs_count = 4097\<rparr>"
    unfolding mean_of_def fold_add_total_patients fold_add_total_wait fold_add_stat_count
      fold_add_stat_max_wait
    by (simp add: fields default_stat_def sum_list_replicate float_tie_means)
  have m2: "mean_of (fold add_observation
         (sample_observation ''Cardiology'' 1 1 1500000001
            # replicate 4095 (sample_observation ''Cardiology'' 1 1 1500000000)) default_stat)
      = \<lparr>avg_patients = 1, avg_wait = 6144000000001 / 4096,
             max_wait = 1500000001, obs_count = 4096\<rparr>"
    unfolding mean_of_def fold_add_total_patients fold_add_total_wait fold_add_stat_count
      fold_add_stat_max_wait
    by (simp add: fields default_stat_def sum_list_replicate float_tie_means)
  show "dept_averages float_tie_observations =
     Inr [(''Radiology'', \<lparr>avg_patients = 1, avg_wait = 6144000000001 / 4096,
             max_wait = 1500000001, obs_count = 4097\<rparr>),
          (''Cardiology'', \<lparr>avg_patients = 1, avg_wait = 6144000000001 / 4096,
             max_wait = 1500000001, obs_count = 4096\<rparr>)]"
    unfolding dept_averages_eq stats by (simp only: list.map prod.case m1 m2)
  show "highest_wait_dept
         [(''Radiology'', \<lparr>avg_patients = 1, avg_wait = 6144000000001 / 4096,
             max_wait = 1500000001, obs_count = 4097\<rparr>),
          (''Cardiology'', \<lparr>avg_patients = 1, avg_wait = 6144000000001 / 4096,
             max_wait = 1500000001, obs_count = 4096\<rparr>)]
     = Inr (''Radiology'', \<lparr>avg_patients = 1, avg_wait = 6144000000001 / 4096,
             max_wait = 1500000001, obs_count = 4097\<rparr>)"
    by (simp add: highest_wait_dept_def)
qed

lemma bottleneck_member:
  assumes "distinct (map fst avgs)" and "x \<in> set avgs"
  shows "(fst x \<in> set (bottleneck_depts avgs)) = (avg_wait (snd x) > 60)"
proof -
  obtain k v where x: "x = (k, v)" by (cases x)
  have uniq: "v' = v" if "(k, v') \<in> set avgs" for v'
    using eq_key_imp_eq_value[OF assms(1) that] assms(2) x by simp
  show ?thesis
  proof
    assume "fst x \<in> set (bottleneck_depts avgs)"
    then obtain v' where "(k, v') \<in> set avgs" "avg_wait v' > 60"
      by (auto simp: bottleneck_depts_def bottleneck_threshold_def x)
    then show "avg_wait (snd x) > 60" using uniq x by auto
  next
    assume "avg_wait (snd x) > 60"
    then have "x \<in> set (filter (\<lambda>x. avg_wait (snd x) > of_int bottleneck_threshold) avgs)"
      using assms(2) by (simp add: bottleneck_threshold_def)
    then show "fst x \<in> set (bottleneck_depts avgs)"
      unfolding bottleneck_depts_def by (metis image_eqI set_map)
  qed
qed

text \<open>
  C6: the bottleneck list holds exactly the departments whose mean wait is strictly greater
  than 60; a department whose mean wait is exactly 60 is not in it. The list has no
  duplicates and is in the order of first occurrence of the departments in the input.
\<close>

theorem bottleneck_strict_threshold:
  "\<exists>avgs. dept_averages observations = Inr avgs \<and>
     (\<forall>x\<in>set avgs. avg_wait (snd x) = 60 \<longrightarrow> fst x \<notin> set (bottleneck_depts avgs)) \<and>
     (\<forall>x\<in>set avgs. (fst x \<in> set (bottleneck_depts avgs)) = (avg_wait (snd x) > 60)) \<and>
     set (bottleneck_depts avgs) \<subseteq> fst ` set avgs \<and>
     distinct (bottleneck_depts avgs) \<and>
     sorted_wrt (\<lambda>a b. first_index a (map department observations)
                         < first_index b (map department observations))
       (bottleneck_depts avgs)"
proof -
  let ?ks = "map department observations"
  obtain avgs where avgs: "dept_averages observations = Inr avgs"
    by (simp add: dept_averages_eq)
  have keys: "map fst avgs = first_occurrences ?ks" using avgs by (rule keys_dept_averages)
  have d: "distinct (map fst avgs)" unfolding keys by simp
  have mem: "\<forall>x\<in>set avgs. (fst x \<in> set (bottleneck_depts avgs)) = (avg_wait (snd x) > 60)"
    using bottleneck_member[OF d] by blast
  define S where "S = set (bottleneck_depts avgs)"
  have "filter (\<lambda>x. avg_wait (snd x) > of_int bottleneck_threshold) avgs
      = filter (\<lambda>x. fst x \<in> S) avgs"
    by (rule filter_cong) (use mem in \<open>auto simp: bottleneck_threshold_def S_def\<close>)
  then have "bottleneck_depts avgs = map fst (filter (\<lambda>x. fst x \<in> S) avgs)"
    by (simp only: bottleneck_depts_def)
  also have "\<dots> = filter (\<lambda>k. k \<in> S) (map fst avgs)"
    by (simp add: filter_map comp_def)
  finally have filt: "bottleneck_depts avgs = filter (\<lambda>k. k \<in> S) (map fst avgs)" .
  have "distinct (bottleneck_depts avgs)"
    by (subst filt) (use d in \<open>rule distinct_filter\<close>)
  moreover have "sorted_wrt (\<lambda>a b. first_index a ?ks < first_index b ?ks) (bottleneck_depts avgs)"
    by (subst filt, rule sorted_wrt_filter) (simp only: keys first_occurrences_sorted)
  moreover have "set (bottleneck_depts avgs) \<subseteq> fst ` set avgs"
    by (auto simp: bottleneck_depts_def)
  moreover have "\<forall>x\<in>set avgs. avg_wait (snd x) = 60 \<longrightarrow> fst x \<notin> set (bottleneck_depts avgs)"
    using mem by auto
  ultimately show ?thesis using avgs mem by blast
qed



theorem bottleneck_strict_threshold_witness:
  "(\<exists>avgs. dept_averages threshold_observations = Inr avgs \<and>
     (\<forall>x\<in>set avgs. avg_wait (snd x) = 60 \<longrightarrow> fst x \<notin> set (bottleneck_depts avgs)) \<and>
     (\<forall>x\<in>set avgs. (fst x \<in> set (bottleneck_depts avgs)) = (avg_wait (snd x) > 60)) \<and>
     set (bottleneck_depts avgs) \<subseteq> fst ` set avgs \<and>
     distinct (bottleneck_depts avgs) \<and>
     sorted_wrt (\<lambda>a b. first_index a (map department threshold_observations)
                         < first_index b (map department threshold_observations))
       (bottleneck_depts avgs)) \<and>
   dept_averages threshold_observations =
     Inr [(''ER'', \<lparr>avg_patients = 15 / 2, avg_wait = 60, max_wait = 90, obs_count = 2\<rparr>),
          (''ICU'', \<lparr>avg_patients = 2, avg_wait = 61, max_wait = 61, obs_count = 1\<rparr>),
          (''Lab'', \<lparr>avg_patients = 4, avg_wait = 20, max_wait = 20, obs_count = 1\<rparr>),
          (''Surgery'', \<lparr>avg_patients = 3, avg_wait = 100, max_wait = 100, obs_count = 1\<rparr>)] \<and>
   bottleneck_depts
         [(''ER'', \<lparr>avg_patients = 15 / 2, avg_wait = 60, max_wait = 90, obs_count = 2\<rparr>),
          (''ICU'', \<lparr>avg_patients = 2, avg_wait = 61, max_wait = 61, obs_count = 1\<rparr>),
          (''Lab'', \<lparr>avg_patients = 4, avg_wait = 20, max_wait = 20, obs_count = 1\<rparr>),
          (''Surgery'', \<lparr>avg_patients = 3, avg_wait = 100, max_wait = 100, obs_count = 1\<rparr>)]
     = [''ICU'', ''Surgery'']"
proof -
  have ev: "dept_averages threshold_observations =
     Inr [(''ER'', \<lparr>avg_patients = 15 / 2, avg_wait = 60, max_wait = 90, obs_count = 2\<rparr>),
          (''ICU'', \<lparr>avg_patients = 2, avg_wait = 61, max_wait = 61, obs_count = 1\<rparr>),
          (''Lab'', \<lparr>avg_patients = 4, avg_wait = 20, max_wait = 20, obs_count = 1\<rparr>),
          (''Surgery'', \<lparr>avg_patients = 3, avg_wait = 100, max_wait = 100, obs_count = 1\<rparr>)]"
    by (simp add: threshold_observations_def dept_averages_def dept_stats_def
          sample_observation_def add_observation_def default_stat_def average_of_def double_eval)
  have bn: "bottleneck_depts
         [(''ER'', \<lparr>avg_patients = 15 / 2, avg_wait = 60, max_wait = 90, obs_count = 2\<rparr>),
          (''ICU'', \<lparr>avg_patients = 2, avg_wait = 61, max_wait = 61, obs_count = 1\<rparr>),
          (''Lab'', \<lparr>avg_patients = 4, avg_wait = 20, max_wait = 20, obs_count = 1\<rparr>),
          (''Surgery'', \<lparr>avg_patients = 3, avg_wait = 100, max_wait = 100, obs_count = 1\<rparr>)]
     = [''ICU'', ''Surgery'']"
    by (simp add: bottleneck_depts_def bottleneck_threshold_def)
  show ?thesis
    using bottleneck_strict_threshold [of threshold_observations] ev bn
    by (intro conjI) assumption+
qed

subsection \<open>The sections of the rule-based text\<close>

lemma str_nat_digit: "n < 10 \<Longrightarrow> str_nat n = [digit_char n]"
  by (simp add: str_nat.simps)

lemma str_nat_more: "\<not> n < 10 \<Longrightarrow> str_nat n = str_nat (n div 10) @ [digit_char (n mod 10)]"
  by (subst str_nat.simps) simp

lemmas render_simps = str_int_def str_nat_digit str_nat_more digit_char_def

lemma insight_parts_eq:
  assumes "observations \<noteq> []"
    and "dept_averages observations = Inr avgs"
    and "highest_wait_dept avgs = Inr (hw_dept, hw_stats)"
    and "highest_volume_dept avgs = Inr (hv_dept, hv_stats)"
  shows "insight_parts fmt observations =
          Inr ([header_part,
                data_summary_part,
                analyzed_part (length observations) (length (dept_stats observations)),
                time_period_part (observed_at (last observations)) (observed_at (hd observations)),
                key_findings_part,
                finding1_part fmt hw_dept hw_stats]
               @ (if hv_dept \<noteq> hw_dept then [finding2_part fmt hv_dept hv_stats] else [])
               @ (if bottleneck_depts avgs \<noteq> [] then [finding3_part (bottleneck_depts avgs)]
                  else [])
               @ [recommendation_part,
                  recommendation hw_dept hw_stats,
                  note_part])"
  using assms by (cases observations) (simp_all add: insight_parts_def py_last_def py_first_def)

lemma bottleneck_prefix [simp]:
  "\<not> starts_with ''3. **Potential Bottlenecks:**'' header_part"
  "\<not> starts_with ''3. **Potential Bottlenecks:**'' data_summary_part"
  "\<not> starts_with ''3. **Potential Bottlenecks:**'' (analyzed_part n m)"
  "\<not> starts_with ''3. **Potential Bottlenecks:**'' (time_period_part t1 t2)"
  "\<not> starts_with ''3. **Potential Bottlenecks:**'' key_findings_part"
  "\<not> starts_with ''3. **Potential Bottlenecks:**'' (finding1_part fmt d s)"
  "\<not> starts_with ''3. **Potential Bottlenecks:**'' (finding2_part fmt d s)"
  "starts_with ''3. **Potential Bottlenecks:**'' (finding3_part ds)"
  "\<not> starts_with ''3. **Potential Bottlenecks:**'' recommendation_part"
  "\<not> starts_with ''3. **Potential Bottlenecks:**'' (staffing_message d)"
  "\<not> starts_with ''3. **Potential Bottlenecks:**'' (monitoring_message d)"
  "\<not> starts_with ''3. **Potential Bottlenecks:**'' status_quo_message"
  "\<not> starts_with ''3. **Potential Bottlenecks:**'' note_part"
  by (simp_all add: header_part_def data_summary_part_def analyzed_part_def time_period_part_def
        key_findings_part_def finding1_part_def finding2_part_def finding3_part_def
        recommendation_part_def staffing_message_def monitoring_message_def
        status_quo_message_def note_part_def newline_def)

lemma staffing_prefix [simp]:
  "\<not> starts_with ''Consider increasing staffing'' header_part"
  "\<not> starts_with ''Consider increasing staffing'' data_summary_part"
  "\<not> starts_with ''Consider increasing staffing'' (analyzed_part n m)"
  "\<not> starts_with ''Consider increasing staffing'' (time_period_part t1 t2)"
  "\<not> starts_with ''Consider increasing staffing'' key_findings_part"
  "\<not> starts_with ''Consider increasing staffing'' (finding1_part fmt d s)"
  "\<not> starts_with ''Consider increasing staffing'' (finding2_part fmt d s)"
  "\<not> starts_with ''Consider increasing staffing'' (finding3_part ds)"
  "\<not> starts_with ''Consider increasing staffing'' recommendation_part"
  "starts_with ''Consider increasing staffing'' (staffing_message d)"
  "\<not> starts_with ''Consider increasing staffing'' (monitoring_message d)"
  "\<not> starts_with ''Consider increasing staffing'' status_quo_message"
  "\<not> starts_with ''Consider increasing staffing'' note_part"
  by (simp_all add: header_part_def data_summary_part_def analyzed_part_def time_period_part_def
        key_findings_part_def finding1_part_def finding2_part_def finding3_part_def
        recommendation_part_def staffing_message_def monitoring_message_def
        status_quo_message_def note_part_def newline_def)


lemma message_distinct:
  "staffing_message d \<noteq> monitoring_message d'"
  "staffing_message d \<noteq> status_quo_message"
  "monitoring_message d \<noteq> status_quo_message"
  by (simp_all add: staffing_message_def monitoring_message_def status_quo_message_def)

lemma recommendation_monitoring_iff:
  "(recommendation d s = monitoring_message d) = (30 < avg_wait s \<and> avg_wait s \<le> 60)"
  using message_distinct(1)[of d d] message_distinct(3)[of d]
  by (auto simp: recommendation_def bottleneck_threshold_def)

lemma recommendation_staffing_iff:
  "(recommendation d s = staffing_message d) = (60 < avg_wait s)"
  using message_distinct(1)[of d d] message_distinct(2)[of d]
  by (auto simp: recommendation_def bottleneck_threshold_def)

lemma recommendation_status_quo_iff:
  "(recommendation d s = status_quo_message) = (avg_wait s \<le> 30)"
  using message_distinct(2)[of d] message_distinct(3)[of d]
  by (auto simp: recommendation_def bottleneck_threshold_def)

lemma selection_exists:
  assumes "observations \<noteq> []"
  shows "\<exists>avgs hw hv. dept_averages observations = Inr avgs \<and>
           highest_wait_dept avgs = Inr hw \<and> hw \<in> set avgs \<and>
           (\<forall>x\<in>set avgs. avg_wait (snd x) \<le> avg_wait (snd hw)) \<and>
           highest_volume_dept avgs = Inr hv"
proof -
  obtain avgs where avgs: "dept_averages observations = Inr avgs"
    by (simp add: dept_averages_eq)
  have ne: "avgs \<noteq> []" using assms avgs by (rule dept_averages_nonempty)
  have sorted: "sorted_wrt (\<lambda>a b. True) (map fst avgs)" by (induction avgs) auto
  obtain hw where "py_max (\<lambda>x. avg_wait (snd x)) avgs = Inr hw" "hw \<in> set avgs"
      "\<forall>x\<in>set avgs. avg_wait (snd x) \<le> avg_wait (snd hw)"
    using py_max_first[OF sorted ne, of "\<lambda>x. avg_wait (snd x)"] by blast
  moreover obtain hv where "py_max (\<lambda>x. avg_patients (snd x)) avgs = Inr hv"
    using py_max_first[OF sorted ne, of "\<lambda>x. avg_patients (snd x)"] by blast
  ultimately show ?thesis
    using avgs unfolding highest_wait_dept_def highest_volume_dept_def by blast
qed

lemma bottleneck_nonempty_iff:
  assumes "hw \<in> set avgs" and "\<forall>x\<in>set avgs. avg_wait (snd x) \<le> avg_wait (snd hw)"
  shows "(bottleneck_depts avgs \<noteq> []) = (avg_wait (snd hw) > 60)"
proof
  assume "bottleneck_depts avgs \<noteq> []"
  then obtain x where "x \<in> set avgs" "avg_wait (snd x) > 60"
    by (auto simp: bottleneck_depts_def bottleneck_threshold_def filter_empty_conv)
  then show "avg_wait (snd hw) > 60" using assms(2) by force
next
  assume "avg_wait (snd hw) > 60"
  then have "hw \<in> set (filter (\<lambda>x. avg_wait (snd x) > of_int bottleneck_threshold) avgs)"
    using assms(1) by (simp add: bottleneck_threshold_def)
  then show "bottleneck_depts avgs \<noteq> []"
    unfolding bottleneck_depts_def by (metis empty_iff list.set(1) map_is_Nil_conv)
qed

lemma parts_sections:
  assumes "observations \<noteq> []"
    and "dept_averages observations = Inr avgs"
    and "highest_wait_dept avgs = Inr hw"
    and "highest_volume_dept avgs = Inr hv"
  shows "\<exists>parts. insight_parts fmt observations = Inr parts \<and>
           recommendation (fst hw) (snd hw) \<in> set parts"
proof -
  obtain hw_dept hw_stats where hw: "hw = (hw_dept, hw_stats)" by (cases hw)
  obtain hv_dept hv_stats where hv: "hv = (hv_dept, hv_stats)" by (cases hv)
  note eq = insight_parts_eq[OF assms(1,2) assms(3)[unfolded hw] assms(4)[unfolded hv], of fmt]
  show ?thesis
    unfolding eq hw by simp
qed

text \<open>
  C7, amended: on a non-empty list the recommendation for the highest-wait department is
  part of the text; when its mean wait is exactly 30 the recommendation is the status-quo
  message, and the monitoring message is chosen exactly when the mean wait is strictly
  greater than 30 and at most 60.
\<close>

theorem recommendation_tiers:
  assumes "observations \<noteq> []"
  shows "\<exists>avgs hw parts.
     dept_averages observations = Inr avgs \<and>
     highest_wait_dept avgs = Inr hw \<and>
     insight_parts fmt observations = Inr parts \<and>
     recommendation (fst hw) (snd hw) \<in> set parts \<and>
     (avg_wait (snd hw) = 30 \<longrightarrow> recommendation (fst hw) (snd hw) = status_quo_message) \<and>
     (recommendation (fst hw) (snd hw) = monitoring_message (fst hw))
       = (30 < avg_wait (snd hw) \<and> avg_wait (snd hw) \<le> 60)"
proof -
  obtain avgs hw hv where sel: "dept_averages observations = Inr avgs"
      "highest_wait_dept avgs = Inr hw" "highest_volume_dept avgs = Inr hv"
    using selection_exists[OF assms] by blast
  obtain parts where parts: "insight_parts fmt observations = Inr parts"
      "recommendation (fst hw) (snd hw) \<in> set parts"
    using parts_sections[OF assms sel, of fmt] by blast
  have "avg_wait (snd hw) = 30 \<longrightarrow> recommendation (fst hw) (snd hw) = status_quo_message"
    by (simp add: recommendation_status_quo_iff)
  then show ?thesis using sel parts recommendation_monitoring_iff by blast
qed


text \<open>
  C7 as stated fails: for a single observation with a wait of 30 the highest-wait department
  has a mean wait of exactly 30, and the recommendation is the status-quo message, not the
  monitoring message, since the test \<^verbatim>\<open>avg_wait > 30\<close> is strict.
\<close>

theorem monitoring_at_30_counterexample:
  "dept_averages boundary_observations = Inr [(''ER'', \<lparr>avg_patients = 5, avg_wait = 30, max_wait = 30, obs_count = 1\<rparr>)] \<and>
   highest_wait_dept [(''ER'', \<lparr>avg_patients = 5, avg_wait = 30, max_wait = 30, obs_count = 1\<rparr>)]
     = Inr (''ER'', \<lparr>avg_patients = 5, avg_wait = 30, max_wait = 30, obs_count = 1\<rparr>) \<and>
   recommendation ''ER'' \<lparr>avg_patients = 5, avg_wait = 30, max_wait = 30, obs_count = 1\<rparr>
     = status_quo_message \<and>
   recommendation ''ER'' \<lparr>avg_patients = 5, avg_wait = 30, max_wait = 30, obs_count = 1\<rparr>
     \<noteq> monitoring_message ''ER'' \<and>
   insight_parts sample_fmt boundary_observations =
     Inr [header_part, data_summary_part, analyzed_part 1 1,
          time_period_part \<lparr>dt_year = 2025, dt_month = 12, dt_day = 1, dt_hour = 14, dt_minute = 30\<rparr>
            \<lparr>dt_year = 2025, dt_month = 12, dt_day = 1, dt_hour = 14, dt_minute = 30\<rparr>,
          key_findings_part,
          finding1_part sample_fmt ''ER'' \<lparr>avg_patients = 5, avg_wait = 30, max_wait = 30, obs_count = 1\<rparr>,
          recommendation_part, status_quo_message, note_part]"
proof -
  have "recommendation ''ER'' \<lparr>avg_patients = 5, avg_wait = 30, max_wait = 30, obs_count = 1\<rparr>
     = status_quo_message"
    by (simp add: recommendation_def bottleneck_threshold_def)
  moreover have "status_quo_message \<noteq> monitoring_message ''ER''"
    using message_distinct(3)[of "''ER''"] by simp
  moreover have "dept_averages boundary_observations = Inr [(''ER'', \<lparr>avg_patients = 5, avg_wait = 30, max_wait = 30, obs_count = 1\<rparr>)]"
    by (simp add: boundary_observations_def dept_averages_def dept_stats_def sample_observation_def
          add_observation_def default_stat_def average_of_def double_eval)
  moreover have "highest_wait_dept [(''ER'', \<lparr>avg_patients = 5, avg_wait = 30, max_wait = 30, obs_count = 1\<rparr>)]
     = Inr (''ER'', \<lparr>avg_patients = 5, avg_wait = 30, max_wait = 30, obs_count = 1\<rparr>)"
    by (simp add: highest_wait_dept_def)
  moreover have "insight_parts sample_fmt boundary_observations =
     Inr [header_part, data_summary_part, analyzed_part 1 1,
          time_period_part \<lparr>dt_year = 2025, dt_month = 12, dt_day = 1, dt_hour = 14, dt_minute = 30\<rparr>
            \<lparr>dt_year = 2025, dt_month = 12, dt_day = 1, dt_hour = 14, dt_minute = 30\<rparr>,
          key_findings_part,
          finding1_part sample_fmt ''ER'' \<lparr>avg_patients = 5, avg_wait = 30, max_wait = 30, obs_count = 1\<rparr>,
          recommendation_part, status_quo_message, note_part]"
    by (simp add: boundary_observations_def insight_parts_def dept_averages_def dept_stats_def
          sample_observation_def add_observation_def default_stat_def average_of_def double_eval
          highest_wait_dept_def highest_volume_dept_def bottleneck_depts_def
          bottleneck_threshold_def recommendation_def py_last_def py_first_def
          numeral_2_eq_2 [symmetric])
  ultimately show ?thesis by simp
qed

theorem recommendation_tiers_witness:
  "boundary_observations \<noteq> [] \<and>
   (\<exists>avgs hw parts.
     dept_averages boundary_observations = Inr avgs \<and>
     highest_wait_dept avgs = Inr hw \<and>
     insight_parts sample_fmt boundary_observations = Inr parts \<and>
     recommendation (fst hw) (snd hw) \<in> set parts \<and>
     (avg_wait (snd hw) = 30 \<longrightarrow> recommendation (fst hw) (snd hw) = status_quo_message) \<and>
     (recommendation (fst hw) (snd hw) = monitoring_message (fst hw))
       = (30 < avg_wait (snd hw) \<and> avg_wait (snd hw) \<le> 60)) \<and>
   dept_averages boundary_observations = Inr [(''ER'', \<lparr>avg_patients = 5, avg_wait = 30, max_wait = 30, obs_count = 1\<rparr>)] \<and>
   highest_wait_dept [(''ER'', \<lparr>avg_patients = 5, avg_wait = 30, max_wait = 30, obs_count = 1\<rparr>)]
     = Inr (''ER'', \<lparr>avg_patients = 5, avg_wait = 30, max_wait = 30, obs_count = 1\<rparr>)"
proof -
  have ne: "boundary_observations \<noteq> []" by (simp add: boundary_observations_def)
  have ev: "dept_averages boundary_observations = Inr [(''ER'', \<lparr>avg_patients = 5, avg_wait = 30, max_wait = 30, obs_count = 1\<rparr>)]"
    by (simp add: boundary_observations_def dept_averages_def dept_stats_def sample_observation_def
          add_observation_def default_stat_def average_of_def double_eval)
  have hw: "highest_wait_dept [(''ER'', \<lparr>avg_patients = 5, avg_wait = 30, max_wait = 30, obs_count = 1\<rparr>)]
     = Inr (''ER'', \<lparr>avg_patients = 5, avg_wait = 30, max_wait = 30, obs_count = 1\<rparr>)"
    by (simp add: highest_wait_dept_def)
  show ?thesis
    using ne recommendation_tiers [OF ne, of sample_fmt] ev hw by (intro conjI) assumption+
qed

subsection \<open>The lines of the returned text\<close>

lemma split_lines_nonempty: "split_lines s \<noteq> []"
  by (induction s) (auto split: list.splits)

lemma split_lines_single: "single_line s \<Longrightarrow> split_lines s = [s]"
  by (induction s) (auto simp: single_line_def)

lemma split_lines_append:
  "split_lines (a @ CHR 0x0A # b) = split_lines a @ split_lines b"
  by (induction a) (auto simp: split_lines_nonempty split: list.splits)

lemma split_lines_newline: "split_lines (newline @ s) = [] # split_lines s"
  by (simp add: newline_def)

lemma split_lines_join:
  "parts \<noteq> [] \<Longrightarrow> split_lines (join newline parts) = concat (map split_lines parts)"
proof (induction parts)
  case Nil
  then show ?case by simp
next
  case (Cons p ps)
  show ?case
  proof (cases ps)
    case Nil
    then show ?thesis by simp
  next
    case (Cons q qs)
    then show ?thesis using Cons.IH by (simp add: newline_def split_lines_append)
  qed
qed

lemma single_line_simps [simp]:
  "single_line []"
  "single_line (c # s) = (c \<noteq> CHR 0x0A \<and> single_line s)"
  "single_line (a @ b) = (single_line a \<and> single_line b)"
  by (auto simp: single_line_def)

lemma single_line_digit: "d < 10 \<Longrightarrow> digit_char d \<noteq> CHR 0x0A"
proof -
  assume "d < 10"
  then have "digit_char d \<in> set ''0123456789''"
    unfolding digit_char_def by (intro nth_mem) simp
  then show ?thesis by auto
qed

lemma single_line_str_nat [simp]: "single_line (str_nat n)"
proof (induction n rule: str_nat.induct)
  case (1 n)
  show ?case
  proof (cases "n < 10")
    case True
    then show ?thesis by (simp add: str_nat_digit single_line_digit)
  next
    case False
    then show ?thesis using 1 by (simp add: str_nat_more single_line_digit)
  qed
qed

lemma single_line_str_int [simp]: "single_line (str_int i)"
  by (simp add: str_int_def)

lemma single_line_replicate [simp]: "single_line (replicate n c) = (n = 0 \<or> c \<noteq> CHR 0x0A)"
  by (auto simp: single_line_def)

lemma single_line_strftime_date [simp]: "single_line (strftime_date t)"
  by (simp add: strftime_date_def zero_pad_def)

lemma single_line_join:
  "\<forall>p\<in>set ps. single_line p \<Longrightarrow> single_line sep \<Longrightarrow> single_line (join sep ps)"
  by (induction sep ps rule: join.induct) simp_all

lemma single_line_sample_fmt: "single_line (sample_fmt q)"
  by (simp add: sample_fmt_def Let_def)

lemma part_lines:
  "split_lines header_part = [header_part]"
  "split_lines data_summary_part = [[], ''**Data Summary:**'']"
  "split_lines (analyzed_part n m) = [analyzed_part n m]"
  "split_lines (time_period_part t1 t2) = [time_period_part t1 t2]"
  "split_lines key_findings_part = [[], ''**Key Findings:**'']"
  "split_lines recommendation_part = [[], ''**Recommendation:**'']"
  "split_lines status_quo_message = [status_quo_message]"
  "split_lines note_part =
     [[], ''*Note: This analysis uses rule-based heuristics. '' @
          ''For AI-powered insights, configure an OpenAI API key.*'']"
  by (simp_all add: split_lines_newline split_lines_single header_part_def data_summary_part_def
        analyzed_part_def time_period_part_def key_findings_part_def recommendation_part_def
        status_quo_message_def note_part_def)

lemma single_line_parts:
  "single_line d \<Longrightarrow> single_line (fmt (avg_wait s)) \<Longrightarrow> single_line (finding1_part fmt d s)"
  "single_line d \<Longrightarrow> single_line (fmt (avg_patients s)) \<Longrightarrow> single_line (finding2_part fmt d s)"
  "\<forall>d\<in>set ds. single_line d \<Longrightarrow> single_line (finding3_part ds)"
  "single_line d \<Longrightarrow> single_line (staffing_message d)"
  "single_line d \<Longrightarrow> single_line (monitoring_message d)"
  by (simp_all add: finding1_part_def finding2_part_def finding3_part_def
        staffing_message_def monitoring_message_def single_line_join)

lemma finding_lines:
  "single_line d \<Longrightarrow> single_line (fmt (avg_wait s)) \<Longrightarrow>
     split_lines (finding1_part fmt d s) = [finding1_part fmt d s]"
  "single_line d \<Longrightarrow> single_line (fmt (avg_patients s)) \<Longrightarrow>
     split_lines (finding2_part fmt d s) = [finding2_part fmt d s]"
  "\<forall>d\<in>set ds. single_line d \<Longrightarrow> split_lines (finding3_part ds) = [finding3_part ds]"
  "single_line d \<Longrightarrow> split_lines (staffing_message d) = [staffing_message d]"
  "single_line d \<Longrightarrow> split_lines (monitoring_message d) = [monitoring_message d]"
  by (rule split_lines_single, simp add: single_line_parts)+

lemma py_max_member: "py_max key avgs = Inr m \<Longrightarrow> m \<in> set avgs"
proof -
  have "max_loop key best xs \<in> set (best # xs)" for best :: 'a and xs
    by (induction xs arbitrary: best) (auto split: if_splits)
  then show "py_max key avgs = Inr m \<Longrightarrow> m \<in> set avgs"
    by (cases avgs) auto
qed

lemma text_sections:
  assumes "observations \<noteq> []"
    and "dept_averages observations = Inr avgs"
    and "highest_wait_dept avgs = Inr hw"
    and "highest_volume_dept avgs = Inr hv"
    and "\<forall>obs\<in>set observations. single_line (department obs)"
    and "\<forall>q. single_line (fmt q)"
  shows "\<exists>t. generate_rule_based_insights fmt observations = Inr t \<and>
           has_bottleneck_section t = (bottleneck_depts avgs \<noteq> []) \<and>
           has_staffing_recommendation t = (avg_wait (snd hw) > 60)"
proof -
  obtain hw_dept hw_stats where hw: "hw = (hw_dept, hw_stats)" by (cases hw)
  obtain hv_dept hv_stats where hv: "hv = (hv_dept, hv_stats)" by (cases hv)
  note eq = insight_parts_eq[OF assms(1,2) assms(3)[unfolded hw] assms(4)[unfolded hv], of fmt]
  have keys: "fst ` set avgs = department ` set observations"
    using arg_cong[where f = set, OF keys_dept_averages[OF assms(2)]] by simp
  have single: "single_line k" if "k \<in> fst ` set avgs" for k
    using that assms(5) unfolding keys by auto
  have "hw \<in> set avgs" using assms(3) unfolding highest_wait_dept_def by (rule py_max_member)
  then have d1: "single_line hw_dept" using single[of hw_dept] hw by force
  have "hv \<in> set avgs" using assms(4) unfolding highest_volume_dept_def by (rule py_max_member)
  then have d2: "single_line hv_dept" using single[of hv_dept] hv by force
  have d3: "\<forall>d\<in>set (bottleneck_depts avgs). single_line d"
    using single by (auto simp: bottleneck_depts_def)
  have f: "single_line (fmt q)" for q using assms(6) by simp
  note lines = part_lines finding_lines(1)[OF d1 f] finding_lines(2)[OF d2 f]
    finding_lines(3)[OF d3] finding_lines(4)[OF d1] finding_lines(5)[OF d1]
  define parts where "parts =
     [header_part,
      data_summary_part,
      analyzed_part (length observations) (length (dept_stats observations)),
      time_period_part (observed_at (last observations)) (observed_at (hd observations)),
      key_findings_part,
      finding1_part fmt hw_dept hw_stats]
     @ (if hv_dept \<noteq> hw_dept then [finding2_part fmt hv_dept hv_stats] else [])
     @ (if bottleneck_depts avgs \<noteq> [] then [finding3_part (bottleneck_depts avgs)] else [])
     @ [recommendation_part, recommendation hw_dept hw_stats, note_part]"
  have "parts \<noteq> []" by (simp add: parts_def)
  then have split: "split_lines (join newline parts) = concat (map split_lines parts)"
    by (rule split_lines_join)
  have res: "generate_rule_based_insights fmt observations = Inr (join newline parts)"
    unfolding generate_rule_based_insights_def eq parts_def by simp
  have "has_bottleneck_section (join newline parts) =
      list_ex (starts_with ''3. **Potential Bottlenecks:**'') (concat (map split_lines parts))"
    by (simp only: has_bottleneck_section_def split)
  also have "\<dots> = (bottleneck_depts avgs \<noteq> [])"
    unfolding parts_def by (simp add: lines recommendation_def)
  finally have b: "has_bottleneck_section (join newline parts) = (bottleneck_depts avgs \<noteq> [])" .
  have "has_staffing_recommendation (join newline parts) =
      list_ex (starts_with ''Consider increasing staffing'') (concat (map split_lines parts))"
    by (simp only: has_staffing_recommendation_def split)
  also have "\<dots> = (avg_wait hw_stats > 60)"
    unfolding parts_def by (simp add: lines recommendation_def bottleneck_threshold_def)
  finally have "has_staffing_recommendation (join newline parts) = (avg_wait hw_stats > 60)" .
  with b show ?thesis using res hw by simp
qed

lemmas text_simps = header_part_def data_summary_part_def analyzed_part_def time_period_part_def
  key_findings_part_def finding1_part_def finding2_part_def finding3_part_def
  recommendation_part_def staffing_message_def monitoring_message_def status_quo_message_def
  note_part_def newline_def strftime_date_def zero_pad_def sample_fmt_def Let_def

lemma threshold_text_eval:
  "generate_rule_based_insights sample_fmt threshold_observations = Inr threshold_text"
  by (simp add: generate_rule_based_insights_def threshold_text_def
          threshold_observations_def insight_parts_def dept_averages_def dept_stats_def
          sample_observation_def add_observation_def default_stat_def average_of_def double_eval
          highest_wait_dept_def highest_volume_dept_def bottleneck_depts_def
          bottleneck_threshold_def recommendation_def py_last_def py_first_def
          text_simps render_simps)

lemma threshold_sections:
  "has_bottleneck_section threshold_text" "has_staffing_recommendation threshold_text"
  by (simp_all add: has_bottleneck_section_def has_staffing_recommendation_def threshold_text_def
        newline_def)

lemma forged_text_eval:
  "generate_rule_based_insights sample_fmt forged_observations = Inr forged_text"
  by (simp add: generate_rule_based_insights_def forged_text_def forged_department_def
          forged_observations_def insight_parts_def dept_averages_def dept_stats_def
          sample_observation_def add_observation_def default_stat_def average_of_def double_eval
          highest_wait_dept_def highest_volume_dept_def bottleneck_depts_def
          bottleneck_threshold_def recommendation_def py_last_def py_first_def
          text_simps render_simps)

lemma forged_sections:
  "has_bottleneck_section forged_text" "\<not> has_staffing_recommendation forged_text"
  by (simp_all add: has_bottleneck_section_def has_staffing_recommendation_def forged_text_def
        newline_def)

lemma forged_department_valid:
  "forged_department \<noteq> []" "py_strip forged_department = forged_department"
  "length forged_department \<le> 100"
  by (simp_all add: forged_department_def py_strip_def is_space_def newline_def)

text \<open>
  C9 as stated fails on the returned text. A department name may have a line break inside:
  it is not empty, \<^verbatim>\<open>strip\<close> leaves it unchanged and it has at most 100 characters. For one
  observation of such a department with a wait of 20, the line of Finding 1 breaks inside
  the name, the text has a line that starts like Finding 3, and it has no staffing
  recommendation, the greatest mean wait being 20.
\<close>

theorem forged_department_counterexample:
  "forged_department \<noteq> [] \<and>
   py_strip forged_department = forged_department \<and>
   length forged_department \<le> 100 \<and>
   forged_observations \<noteq> [] \<and>
   dept_averages forged_observations =
     Inr [(forged_department, \<lparr>avg_patients = 5, avg_wait = 20, max_wait = 20, obs_count = 1\<rparr>)] \<and>
   generate_rule_based_insights sample_fmt forged_observations = Inr forged_text \<and>
   has_bottleneck_section forged_text \<and>
   \<not> has_staffing_recommendation forged_text"
proof -
  have "forged_observations \<noteq> []" by (simp add: forged_observations_def)
  moreover have "dept_averages forged_observations =
     Inr [(forged_department, \<lparr>avg_patients = 5, avg_wait = 20, max_wait = 20, obs_count = 1\<rparr>)]"
    by (simp add: forged_observations_def dept_averages_def dept_stats_def sample_observation_def
          add_observation_def default_stat_def average_of_def double_eval)
  ultimately show ?thesis
    using forged_department_valid forged_text_eval forged_sections by simp
qed

text \<open>
  C9, amended: on a non-empty list in which no department name has a line break, and for a
  rendering of the means that produces no line break, the returned text has the bottleneck
  section (Finding 3) if and only if it has the staffing recommendation: each is present
  exactly when the mean wait of the highest-wait department is strictly greater than 60, and
  that department is an entry of \<open>dept_averages\<close> with the greatest mean wait.
\<close>

theorem bottleneck_section_iff_staffing:
  assumes "observations \<noteq> []"
    and "list_all (\<lambda>obs. single_line (department obs)) observations"
    and "\<forall>q. single_line (fmt q)"
  shows "\<exists>avgs hw t.
     dept_averages observations = Inr avgs \<and>
     highest_wait_dept avgs = Inr hw \<and>
     generate_rule_based_insights fmt observations = Inr t \<and>
     hw \<in> set avgs \<and>
     (\<forall>x\<in>set avgs. avg_wait (snd x) \<le> avg_wait (snd hw)) \<and>
     has_bottleneck_section t = (avg_wait (snd hw) > 60) \<and>
     has_staffing_recommendation t = (avg_wait (snd hw) > 60) \<and>
     has_bottleneck_section t = has_staffing_recommendation t"
proof -
  obtain avgs hw hv where sel: "dept_averages observations = Inr avgs"
      "highest_wait_dept avgs = Inr hw" "hw \<in> set avgs"
      "\<forall>x\<in>set avgs. avg_wait (snd x) \<le> avg_wait (snd hw)"
      "highest_volume_dept avgs = Inr hv"
    using selection_exists[OF assms(1)] by blast
  have names: "\<forall>obs\<in>set observations. single_line (department obs)"
    using assms(2) by (simp add: list_all_iff)
  obtain t where t: "generate_rule_based_insights fmt observations = Inr t"
      "has_bottleneck_section t = (bottleneck_depts avgs \<noteq> [])"
      "has_staffing_recommendation t = (avg_wait (snd hw) > 60)"
    using text_sections[OF assms(1) sel(1,2,5) names assms(3)] by blast
  have "has_bottleneck_section t = (avg_wait (snd hw) > 60)"
    using t(2) bottleneck_nonempty_iff[OF sel(3,4)] by simp
  then show ?thesis using sel t by blast
qed

theorem bottleneck_section_iff_staffing_witness:
  "threshold_observations \<noteq> [] \<and>
   list_all (\<lambda>obs. single_line (department obs)) threshold_observations \<and>
   (\<forall>q. single_line (sample_fmt q)) \<and>
   (\<exists>avgs hw t.
     dept_averages threshold_observations = Inr avgs \<and>
     highest_wait_dept avgs = Inr hw \<and>
     generate_rule_based_insights sample_fmt threshold_observations = Inr t \<and>
     hw \<in> set avgs \<and>
     (\<forall>x\<in>set avgs. avg_wait (snd x) \<le> avg_wait (snd hw)) \<and>
     has_bottleneck_section t = (avg_wait (snd hw) > 60) \<and>
     has_staffing_recommendation t = (avg_wait (snd hw) > 60) \<and>
     has_bottleneck_section t = has_staffing_recommendation t) \<and>
   generate_rule_based_insights sample_fmt threshold_observations = Inr threshold_text \<and>
   has_bottleneck_section threshold_text \<and>
   has_staffing_recommendation threshold_text"
proof -
  have ne: "threshold_observations \<noteq> []" by (simp add: threshold_observations_def)
  have names: "list_all (\<lambda>obs. single_line (department obs)) threshold_observations"
    by (simp add: threshold_observations_def sample_observation_def)
  have f: "\<forall>q. single_line (sample_fmt q)" by (simp add: single_line_sample_fmt)
  show ?thesis
    using ne names f bottleneck_section_iff_staffing [OF ne names f] threshold_text_eval
      threshold_sections
    by (intro conjI) assumption+
qed

text \<open>
  C8: three observations of department ER with waits 30, 90, 60 and patients 5, 10, 8,
  newest first, and no API key: the mean wait is 60, the maximal wait is 90, there is no
  bottleneck department, the recommendation is the monitoring message, and
  \<open>generate_insights\<close> returns the rule-based text with \<open>is_ai_generated = False\<close>.
\<close>

theorem scenario_three_er_observations:
  "dept_averages scenario_observations = Inr [(''ER'', \<lparr>avg_patients = 8631899285793451 / 1125899906842624, avg_wait = 60, max_wait = 90, obs_count = 3\<rparr>)] \<and>
   highest_wait_dept [(''ER'', \<lparr>avg_patients = 8631899285793451 / 1125899906842624, avg_wait = 60, max_wait = 90, obs_count = 3\<rparr>)]
     = Inr (''ER'', \<lparr>avg_patients = 8631899285793451 / 1125899906842624, avg_wait = 60, max_wait = 90, obs_count = 3\<rparr>) \<and>
   bottleneck_depts [(''ER'', \<lparr>avg_patients = 8631899285793451 / 1125899906842624, avg_wait = 60, max_wait = 90, obs_count = 3\<rparr>)] = [] \<and>
   recommendation ''ER'' \<lparr>avg_patients = 8631899285793451 / 1125899906842624, avg_wait = 60, max_wait = 90, obs_count = 3\<rparr>
     = monitoring_message ''ER'' \<and>
   insight_parts fmt scenario_observations =
     Inr [header_part, data_summary_part, analyzed_part 3 1,
          time_period_part \<lparr>dt_year = 2025, dt_month = 12, dt_day = 1, dt_hour = 14, dt_minute = 30\<rparr>
            \<lparr>dt_year = 2025, dt_month = 12, dt_day = 3, dt_hour = 14, dt_minute = 30\<rparr>,
          key_findings_part,
          finding1_part fmt ''ER'' \<lparr>avg_patients = 8631899285793451 / 1125899906842624, avg_wait = 60, max_wait = 90, obs_count = 3\<rparr>,
          recommendation_part, monitoring_message ''ER'', note_part] \<and>
   generate_insights env fmt \<lparr>api_key = None, model = m, max_tokens = n\<rparr> scenario_observations =
     Inr (join newline
         [header_part, data_summary_part, analyzed_part 3 1,
          time_period_part \<lparr>dt_year = 2025, dt_month = 12, dt_day = 1, dt_hour = 14, dt_minute = 30\<rparr>
            \<lparr>dt_year = 2025, dt_month = 12, dt_day = 3, dt_hour = 14, dt_minute = 30\<rparr>,
          key_findings_part,
          finding1_part fmt ''ER'' \<lparr>avg_patients = 8631899285793451 / 1125899906842624, avg_wait = 60, max_wait = 90, obs_count = 3\<rparr>,
          recommendation_part, monitoring_message ''ER'', note_part],
       False, ''rule-based'')"
proof -
  have parts: "insight_parts fmt scenario_observations =
     Inr [header_part, data_summary_part, analyzed_part 3 1,
          time_period_part \<lparr>dt_year = 2025, dt_month = 12, dt_day = 1, dt_hour = 14, dt_minute = 30\<rparr>
            \<lparr>dt_year = 2025, dt_month = 12, dt_day = 3, dt_hour = 14, dt_minute = 30\<rparr>,
          key_findings_part,
          finding1_part fmt ''ER'' \<lparr>avg_patients = 8631899285793451 / 1125899906842624, avg_wait = 60, max_wait = 90, obs_count = 3\<rparr>,
          recommendation_part, monitoring_message ''ER'', note_part]"
    by (simp add: scenario_observations_def insight_parts_def dept_averages_def dept_stats_def
          sample_observation_def add_observation_def default_stat_def average_of_def double_eval
          highest_wait_dept_def highest_volume_dept_def bottleneck_depts_def
          bottleneck_threshold_def recommendation_def py_last_def py_first_def
          numeral_2_eq_2 [symmetric])
  have "dept_averages scenario_observations = Inr [(''ER'', \<lparr>avg_patients = 8631899285793451 / 1125899906842624, avg_wait = 60, max_wait = 90, obs_count = 3\<rparr>)]"
    by (simp add: scenario_observations_def dept_averages_def dept_stats_def sample_observation_def
          add_observation_def default_stat_def average_of_def double_eval)
  moreover have "highest_wait_dept [(''ER'', \<lparr>avg_patients = 8631899285793451 / 1125899906842624, avg_wait = 60, max_wait = 90, obs_count = 3\<rparr>)]
     = Inr (''ER'', \<lparr>avg_patients = 8631899285793451 / 1125899906842624, avg_wait = 60, max_wait = 90, obs_count = 3\<rparr>)"
    by (simp add: highest_wait_dept_def)
  moreover have "bottleneck_depts [(''ER'', \<lparr>avg_patients = 8631899285793451 / 1125899906842624, avg_wait = 60, max_wait = 90, obs_count = 3\<rparr>)] = []"
    by (simp add: bottleneck_depts_def bottleneck_threshold_def)
  moreover have "recommendation ''ER'' \<lparr>avg_patients = 8631899285793451 / 1125899906842624, avg_wait = 60, max_wait = 90, obs_count = 3\<rparr>
     = monitoring_message ''ER''"
    by (simp add: recommendation_def bottleneck_threshold_def)
  moreover have "generate_insights env fmt \<lparr>api_key = None, model = m, max_tokens = n\<rparr> scenario_observations =
     Inr (join newline
         [header_part, data_summary_part, analyzed_part 3 1,
          time_period_part \<lparr>dt_year = 2025, dt_month = 12, dt_day = 1, dt_hour = 14, dt_minute = 30\<rparr>
            \<lparr>dt_year = 2025, dt_month = 12, dt_day = 3, dt_hour = 14, dt_minute = 30\<rparr>,
          key_findings_part,
          finding1_part fmt ''ER'' \<lparr>avg_patients = 8631899285793451 / 1125899906842624, avg_wait = 60, max_wait = 90, obs_count = 3\<rparr>,
          recommendation_part, monitoring_message ''ER'', note_part],
       False, ''rule-based'')"
    unfolding generate_insights_def rule_based_result_def generate_rule_based_insights_def parts
    by (simp add: scenario_observations_def api_key_configured_def rule_based_marker_def)
  ultimately show ?thesis using parts by simp
qed

subsection \<open>The entry point: totality and fallback\<close>

lemma join_nonempty: "p \<noteq> [] \<Longrightarrow> join sep (p # ps) \<noteq> []"
  by (cases ps) simp_all

lemma rule_based_total:
  assumes "observations \<noteq> []"
  shows "\<exists>t. generate_rule_based_insights fmt observations = Inr t \<and> t \<noteq> []"
proof -
  obtain avgs hw hv where sel: "dept_averages observations = Inr avgs"
      "highest_wait_dept avgs = Inr hw" "highest_volume_dept avgs = Inr hv"
    using selection_exists[OF assms] by blast
  obtain hw_dept hw_stats where hw: "hw = (hw_dept, hw_stats)" by (cases hw)
  obtain hv_dept hv_stats where hv: "hv = (hv_dept, hv_stats)" by (cases hv)
  note eq = insight_parts_eq[OF assms sel(1) sel(2)[unfolded hw] sel(3)[unfolded hv], of fmt]
  have "header_part \<noteq> []" by (simp add: header_part_def)
  then show ?thesis
    unfolding generate_rule_based_insights_def eq by (simp add: join_nonempty)
qed

lemma rule_based_result_total:
  assumes "observations \<noteq> []"
  shows "\<exists>t. rule_based_result fmt observations = Inr (t, False, ''rule-based'') \<and> t \<noteq> []"
  using rule_based_total[OF assms, of fmt]
  by (auto simp: rule_based_result_def rule_based_marker_def)

lemma generate_insights_total:
  assumes "observations \<noteq> []"
  shows "\<exists>t b m. generate_insights env fmt svc observations = Inr (t, b, m) \<and>
           (b \<longrightarrow> m = model svc \<and> api_key_configured svc \<and>
                  generate_ai_insights env svc observations = Inr t) \<and>
           (\<not> b \<longrightarrow> m = ''rule-based'' \<and> t \<noteq> [] \<and>
                  rule_based_result fmt observations = Inr (t, b, m))"
  using rule_based_result_total[OF assms, of fmt] assms
  by (auto simp: generate_insights_def split: sum.splits)

lemma ai_failure_falls_back:
  assumes "observations \<noteq> []" and "generate_ai_insights env svc observations = Inl e"
  shows "generate_insights env fmt svc observations = rule_based_result fmt observations"
  using assms by (simp add: generate_insights_def)

lemma ai_failures:
  "\<not> openai_installed env \<Longrightarrow> \<exists>e. generate_ai_insights env svc observations = Inl e"
  "openai_installed env \<Longrightarrow> (\<And>request. chat_completions_create env request = Inl e) \<Longrightarrow>
     generate_ai_insights env svc observations = Inl e"
  "openai_installed env \<Longrightarrow> (\<And>request. chat_completions_create env request = Inr []) \<Longrightarrow>
     generate_ai_insights env svc observations = Inl IndexError"
  "openai_installed env \<Longrightarrow> (\<And>request. chat_completions_create env request = Inr (None # cs)) \<Longrightarrow>
     generate_ai_insights env svc observations = Inl AttributeError"
  by (auto simp: generate_ai_insights_def py_first_def)

text \<open>
  C1 at a failing input: with an API key configured and a reply whose content is the empty
  string, \<open>generate_insights\<close> returns the empty text, flagged as AI-generated, for a
  non-empty list of observations. (By \<open>generate_insights_total\<close> the call never raises, the
  model name and the marker are as claimed, and the text is non-empty on the rule-based
  path; only an AI reply that strips to nothing gives an empty text.)
\<close>

theorem empty_ai_reply_returned:
  "generate_insights empty_reply_env sample_fmt sample_service boundary_observations
     = Inr ('''', True, ''gpt-4o-mini'')"
  by (simp add: generate_insights_def generate_ai_insights_def empty_reply_env_def
        sample_service_def boundary_observations_def api_key_configured_def py_first_def
        py_strip_def)

text \<open>
  C2 at a failing input: with an API key configured and a reply whose content is blank, the
  stripped content is empty, no exception is raised, and the result is the empty AI text,
  not the triple of the rule-based strategy. (By \<open>ai_failure_falls_back\<close> every exception
  of the AI strategy, among them those of \<open>ai_failures\<close>, does give the rule-based triple.)
\<close>

theorem blank_ai_reply_not_rule_based:
  "generate_insights blank_reply_env sample_fmt sample_service boundary_observations
     = Inr ('''', True, ''gpt-4o-mini'') \<and>
   generate_insights blank_reply_env sample_fmt sample_service boundary_observations
     \<noteq> rule_based_result sample_fmt boundary_observations"
proof -
  have a: "generate_insights blank_reply_env sample_fmt sample_service boundary_observations
     = Inr ('''', True, ''gpt-4o-mini'')"
    by (simp add: generate_insights_def generate_ai_insights_def blank_reply_env_def
        sample_service_def boundary_observations_def api_key_configured_def py_first_def
        py_strip_def is_space_def)
  obtain t where "rule_based_result sample_fmt boundary_observations = Inr (t, False, ''rule-based'')"
    using rule_based_result_total[of boundary_observations sample_fmt]
    by (auto simp: boundary_observations_def)
  then show ?thesis using a by simp
qed

end
